theory Spec2Isabelle
  imports
    Complex_Main
    "HOL-Library.Multiset"
    "HOL-Library.Char_ord"
    "HOL-Library.List_Lexorder"
begin

section \<open>Numbers, vectors and configuration constants\<close>

text \<open>
  JavaScript numbers are modelled as \<^typ>\<open>real\<close>: rounding of IEEE doubles is abstracted
  away, so an equality "to floating tolerance" is an exact equality here. Where the
  source divides by a quantity that can be zero, the model says so explicitly (a
  guard, or an \<open>option\<close> whose \<open>None\<close> stands for the NaN that JavaScript produces).
\<close>

text \<open>\<open>CONFIG.PHYSICS.INCHES_TO_MM\<close>, \<open>CONFIG.DEFAULTS.PRESET_DISTANCE\<close> and the length of
  \<open>CONFIG.COLORS.SCREEN_COLORS\<close> (config.js).\<close>

definition INCHES_TO_MM :: real where
  "INCHES_TO_MM = 25.4"

definition PRESET_DISTANCE :: real where
  "PRESET_DISTANCE = 600"

definition SCREEN_COLORS_length :: nat where
  "SCREEN_COLORS_length = 5"

text \<open>The operator \<open>a || b\<close> on numbers: \<open>0\<close> is falsy, every other finite number is truthy.\<close>

definition js_or :: "real \<Rightarrow> real \<Rightarrow> real" where
  "js_or a b = (if a = 0 then b else a)"

text \<open>\<open>THREE.Vector3\<close> with the operations the visualizer uses.\<close>

datatype vec3 = Vector3 (vx: real) (vy: real) (vz: real)

definition vsub :: "vec3 \<Rightarrow> vec3 \<Rightarrow> vec3" where
  "vsub a b = Vector3 (vx a - vx b) (vy a - vy b) (vz a - vz b)"

definition vadd :: "vec3 \<Rightarrow> vec3 \<Rightarrow> vec3" where
  "vadd a b = Vector3 (vx a + vx b) (vy a + vy b) (vz a + vz b)"

definition vlength :: "vec3 \<Rightarrow> real" where
  "vlength a = sqrt (vx a * vx a + vy a * vy a + vz a * vz a)"

definition distanceTo :: "vec3 \<Rightarrow> vec3 \<Rightarrow> real" where
  "distanceTo a b = vlength (vsub a b)"

text \<open>\<open>THREE.MathUtils.lerp(x, y, t)\<close> and \<open>Vector3.lerp(v, alpha)\<close>.\<close>

definition lerp :: "real \<Rightarrow> real \<Rightarrow> real \<Rightarrow> real" where
  "lerp a b t = (1 - t) * a + t * b"

definition vlerp :: "vec3 \<Rightarrow> vec3 \<Rightarrow> real \<Rightarrow> vec3" where
  "vlerp a b alpha =
     Vector3 (vx a + (vx b - vx a) * alpha)
             (vy a + (vy b - vy a) * alpha)
             (vz a + (vz b - vz a) * alpha)"

section \<open>Screen specifications and geometry descriptors\<close>

text \<open>
  A screen object as the visualizer reads it. \<open>curvature\<close> is \<open>null\<close> (\<open>None\<close>) for a flat
  screen; \<open>screenNumber\<close> may be absent (\<open>None\<close>).
\<close>

record screenData =
  diagonal :: real
  resolution :: "real \<times> real"
  distance :: real
  curvature :: "real option"
  scaling :: real
  screenNumber :: "nat option"

text \<open>
  The geometries the builder creates, by constructor arguments. \<open>CurvedCap\<close> is the
  result of the local helper \<open>createCurvedCap(innerR, outerR, segs, tStart, tLength)\<close>.
  Materials (colour, opacity) are not part of the model.
\<close>

datatype geometry =
    BoxGeometry (boxWidth: real) (boxHeight: real) (boxDepth: real)
  | PlaneGeometry (planeWidth: real) (planeHeight: real)
  | CylinderGeometry (radiusTop: real) (radiusBottom: real) (cylinderHeight: real)
      (radialSegments: int) (heightSegments: int) (openEnded: bool)
      (thetaStart: real) (thetaLength: real)
  | CurvedCap (capInner: real) (capOuter: real) (capSegments: int)
      (capThetaStart: real) (capThetaLength: real)

text \<open>A mesh carries its geometry, its position and \<open>rotation.y\<close>; a group its children
  and its position.\<close>

datatype object3D =
    Mesh geometry vec3 real
  | Group "object3D list" vec3

fun position_set :: "vec3 \<Rightarrow> object3D \<Rightarrow> object3D" where
  "position_set p (Mesh g _ r) = Mesh g p r"
| "position_set p (Group cs _) = Group cs p"

fun position_of :: "object3D \<Rightarrow> vec3" where
  "position_of (Mesh _ p _) = p"
| "position_of (Group _ p) = p"

text \<open>All geometries of an object tree, in creation order.\<close>

fun geometries :: "object3D \<Rightarrow> geometry list" where
  "geometries (Mesh g _ _) = [g]"
| "geometries (Group cs _) = concat (map geometries cs)"

text \<open>\<open>Math.floor\<close> of a number, as an integer.\<close>

definition Math_floor :: "real \<Rightarrow> int" where
  "Math_floor a = \<lfloor>a\<rfloor>"

subsection \<open>createScreenBorder\<close>

definition createScreenBorder :: "real \<Rightarrow> real \<Rightarrow> real option \<Rightarrow> object3D" where
  "createScreenBorder screenWidth screenHeight curv =
    (let borderThickness = screenHeight * 0.01;
         borderDepth = borderThickness * 0.5
     in case curv of
       None \<Rightarrow>
         Group
          [ Mesh (BoxGeometry screenWidth borderThickness borderDepth)
              (Vector3 0 ((screenHeight + borderThickness) / 2) 0) 0,
            Mesh (BoxGeometry screenWidth borderThickness borderDepth)
              (Vector3 0 (- (screenHeight + borderThickness) / 2) 0) 0,
            Mesh (BoxGeometry borderThickness (screenHeight + borderThickness * 2) borderDepth)
              (Vector3 (- (screenWidth + borderThickness) / 2) 0 0) 0,
            Mesh (BoxGeometry borderThickness (screenHeight + borderThickness * 2) borderDepth)
              (Vector3 ((screenWidth + borderThickness) / 2) 0 0) 0 ]
          (Vector3 0 0 0)
     | Some c \<Rightarrow>
        (let radiusMeters = c / 1000;
             arcAngle = screenWidth / radiusMeters;
             segments = max 32 (Math_floor (arcAngle * 32));
             tStart = pi - arcAngle / 2;
             innerRadius = radiusMeters;
             outerRadius = radiusMeters + borderDepth;
             section =
               [ Mesh (CylinderGeometry innerRadius innerRadius borderThickness segments 1 True
                        tStart arcAngle) (Vector3 0 0 0) 0,
                 Mesh (CylinderGeometry outerRadius outerRadius borderThickness segments 1 True
                        tStart arcAngle) (Vector3 0 0 0) 0,
                 Mesh (CurvedCap innerRadius outerRadius segments tStart arcAngle)
                      (Vector3 0 (borderThickness / 2) 0) (- pi / 2),
                 Mesh (CurvedCap innerRadius outerRadius segments tStart arcAngle)
                      (Vector3 0 (- borderThickness / 2) 0) (- pi / 2) ];
             leftX = - radiusMeters * sin (arcAngle / 2);
             leftZ = radiusMeters * (1 - cos (arcAngle / 2)) - borderDepth / 2;
             rightX = radiusMeters * sin (arcAngle / 2);
             rightZ = leftZ
         in Group
          [ Group section (Vector3 0 ((screenHeight + borderThickness) / 2) radiusMeters),
            Group section (Vector3 0 (- (screenHeight + borderThickness) / 2) radiusMeters),
            Mesh (BoxGeometry borderThickness (screenHeight + borderThickness * 2) borderDepth)
              (Vector3 leftX 0 leftZ) (arcAngle / 2),
            Mesh (BoxGeometry borderThickness (screenHeight + borderThickness * 2) borderDepth)
              (Vector3 rightX 0 rightZ) (- arcAngle / 2) ]
          (Vector3 0 0 0)))"

subsection \<open>createCenterPanel\<close>

definition createCenterPanel :: "real \<Rightarrow> real \<Rightarrow> real option \<Rightarrow> object3D" where
  "createCenterPanel screenWidth screenHeight curv =
    (case curv of
       None \<Rightarrow> Mesh (PlaneGeometry screenWidth screenHeight) (Vector3 0 0 0) 0
     | Some c \<Rightarrow>
        (let radiusMeters = c / 1000;
             arcAngle = screenWidth / radiusMeters;
             segments = max 32 (Math_floor (arcAngle * 32));
             tStart = pi - arcAngle / 2
         in Group
              [ Mesh (CylinderGeometry radiusMeters radiusMeters screenHeight segments 1 True
                       tStart arcAngle) (Vector3 0 0 radiusMeters) 0 ]
              (Vector3 0 0 0)))"

section \<open>The visualizer's state\<close>

datatype viewAngle = ViewFront | ViewTop | View3D

datatype theme = Dark | Light

text \<open>\<open>THREE.Spherical(radius, phi, theta)\<close>.\<close>

record spherical =
  radius :: real
  phi :: real
  theta :: real

record orbitState =
  enabled :: bool
  dragging :: bool
  mouseX :: real
  mouseY :: real
  spherical :: spherical
  target :: vec3

text \<open>\<open>zoomState.minZoom\<close> and \<open>zoomState.maxZoom\<close> are set by the constructor and never
  assigned again; so is \<open>animationSpeed\<close>.\<close>

definition minZoom :: real where
  "minZoom = 0.2"

definition maxZoom :: real where
  "maxZoom = 5.0"

definition animationSpeed :: real where
  "animationSpeed = 0.1"

record zoomState =
  zoomFactor :: real
  baseDistance :: real
  pinching :: bool
  lastPinchDistance :: real

text \<open>The look-around state of the front view; its \<open>dragging\<close>, \<open>mouseX\<close> and \<open>mouseY\<close>
  carry the prefix \<open>look\<close> to keep them apart from the orbit state's.\<close>

record lookAroundState =
  lookDragging :: bool
  lookMouseX :: real
  lookMouseY :: real
  currentYaw :: real
  currentPitch :: real
  maxYaw :: real
  maxPitch :: real
  springBack :: bool

text \<open>The camera: its position, its up vector and the point last given to \<open>lookAt\<close>.\<close>

record camera =
  position :: vec3
  up :: vec3
  lookAtPoint :: vec3

record meshGroup =
  border :: object3D
  centerPanel :: object3D
  meshScreenData :: screenData
  colorIndex :: nat

text \<open>
  The fields of \<open>ScreenVisualizer3D\<close> that the modelled methods read or write.
  \<open>camera\<close> is \<open>None\<close> before \<open>init3D\<close>; \<open>userSphere\<close> and \<open>responseTimeoutId\<close> record
  whether the object or the pending timer exists; \<open>viewAxisLine\<close> holds the z coordinate
  of the line's far end; the \<open>current...\<close> fields are the animation helpers
  \<open>_currentLookAt\<close>, \<open>_currentUp\<close>, \<open>_currentOrbitTarget\<close>, \<open>_currentSpherical\<close>.
\<close>

record visualizer =
  screens :: "screenData list"
  viewAngle :: viewAngle
  cam :: "camera option"
  orbit :: orbitState
  zoom :: zoomState
  lookAround :: lookAroundState
  screenMeshes :: "meshGroup list"
  userSphere :: bool
  viewAxisLine :: "real option"
  isInitialized :: bool
  lastScreensHash :: "string option"
  lastCanvasSize :: "real \<times> real"
  lastTheme :: theme
  isAnimating :: bool
  targetCameraPosition :: vec3
  targetCameraLookAt :: vec3
  responseTimeoutId :: bool
  lastDistanceHash :: "string option"
  sphereAnimating :: bool
  targetSphereOpacity :: real
  sphereVisible :: bool
  currentLookAt :: "vec3 option"
  currentUp :: "vec3 option"
  currentOrbitTarget :: "vec3 option"
  currentSpherical :: "spherical option"

text \<open>
  What the visualizer reads from the page on each call: the canvas size, the effective
  theme, and JavaScript's conversion of a number to a string (used by template literals
  and \<open>join\<close>).
\<close>

record env =
  canvasSize :: "real \<times> real"
  effectiveTheme :: theme
  numberToString :: "real \<Rightarrow> string"

section \<open>Geometry builder\<close>

text \<open>Lines 326 to 332 of \<open>createSingleScreen\<close> (repeated in
  \<open>calculateLookAroundFOVLimits\<close>): the physical size in meters, as (width, height).\<close>

definition screenSizeMeters :: "screenData \<Rightarrow> real \<times> real" where
  "screenSizeMeters sd =
    (let ratio = fst (resolution sd) / snd (resolution sd);
         heightInches = diagonal sd / sqrt (ratio ^ 2 + 1);
         widthInches = ratio * heightInches;
         widthMeters = (widthInches * INCHES_TO_MM) / 1000;
         heightMeters = (heightInches * INCHES_TO_MM) / 1000
     in (widthMeters, heightMeters))"

text \<open>\<open>screenData.screenNumber || (index + 1)\<close> and \<open>screenData.curvature || null\<close>.\<close>

definition screenNumber_or :: "nat option \<Rightarrow> nat \<Rightarrow> nat" where
  "screenNumber_or n d = (case n of None \<Rightarrow> d | Some k \<Rightarrow> if k = 0 then d else k)"

definition curvature_or_null :: "real option \<Rightarrow> real option" where
  "curvature_or_null c = (case c of None \<Rightarrow> None | Some r \<Rightarrow> if r = 0 then None else Some r)"

definition createSingleScreen :: "screenData \<Rightarrow> nat \<Rightarrow> visualizer \<Rightarrow> visualizer" where
  "createSingleScreen sd index s =
    (let (widthMeters, heightMeters) = screenSizeMeters sd;
         screenNumber' = screenNumber_or (screenNumber sd) (index + 1);
         colorIndex' = (screenNumber' - 1) mod SCREEN_COLORS_length;
         curv = curvature_or_null (curvature sd);
         border' = createScreenBorder widthMeters heightMeters curv;
         centerPanel' = createCenterPanel widthMeters heightMeters curv;
         distanceMeters = - (js_or (distance sd) PRESET_DISTANCE) / 1000;
         zOffset = real index * 0.001;
         border'' = position_set (Vector3 0 0 (distanceMeters + zOffset)) border';
         centerPanel'' = position_set (Vector3 0 0 (distanceMeters + zOffset)) centerPanel'
     in s\<lparr>screenMeshes := screenMeshes s @
           [\<lparr>border = border'', centerPanel = centerPanel'',
             meshScreenData = sd, colorIndex = colorIndex'\<rparr>]\<rparr>)"

text \<open>\<open>createDefaultScreen\<close>: the preset marked \<open>selected\<close> in \<open>CONFIG.PRESETS\<close> is the
  24 inch FHD one.\<close>

definition defaultScreen :: screenData where
  "defaultScreen =
     \<lparr>diagonal = 24, resolution = (1920, 1080), distance = PRESET_DISTANCE,
      curvature = None, scaling = 0, screenNumber = Some 1\<rparr>"

definition createDefaultScreen :: "visualizer \<Rightarrow> visualizer" where
  "createDefaultScreen s = createSingleScreen defaultScreen 0 s"

definition clearScreens :: "visualizer \<Rightarrow> visualizer" where
  "clearScreens s = s\<lparr>screenMeshes := []\<rparr>"

text \<open>The \<open>forEach((screen, index) => ...)\<close> loop of \<open>createScreens\<close>.\<close>

fun createScreens_loop :: "screenData list \<Rightarrow> nat \<Rightarrow> visualizer \<Rightarrow> visualizer" where
  "createScreens_loop [] index s = s"
| "createScreens_loop (sd # sds) index s =
     createScreens_loop sds (index + 1) (createSingleScreen sd index s)"

definition createScreens :: "visualizer \<Rightarrow> visualizer" where
  "createScreens s =
    (let s1 = clearScreens s
     in if screens s1 = [] then createDefaultScreen s1
        else createScreens_loop (screens s1) 0 s1)"

section \<open>Camera controller\<close>

text \<open>\<open>Math.atan2(y, x)\<close> on finite numbers (signed zeros are not distinguished).\<close>

definition atan2 :: "real \<Rightarrow> real \<Rightarrow> real" where
  "atan2 b a =
    (if a > 0 then arctan (b / a)
     else if a < 0 then (if b \<ge> 0 then arctan (b / a) + pi else arctan (b / a) - pi)
     else if b > 0 then pi / 2
     else if b < 0 then - pi / 2
     else 0)"

text \<open>
  The three lines that turn an offset vector into spherical coordinates,
  \<open>radius = offset.length()\<close>, \<open>phi = Math.acos(Math.max(-1, Math.min(1, offset.y / radius)))\<close>,
  \<open>theta = Math.atan2(offset.x, offset.z)\<close>. They are meaningful for \<open>radius > 0\<close> only;
  every caller below states its own guard, or the lack of one.
\<close>

definition sphericalFromOffset :: "vec3 \<Rightarrow> spherical" where
  "sphericalFromOffset offset =
    (let r = vlength offset
     in \<lparr>radius = r,
         phi = arccos (max (- 1) (min 1 (vy offset / r))),
         theta = atan2 (vx offset) (vz offset)\<rparr>)"

text \<open>\<open>Vector3.setFromSpherical\<close>.\<close>

definition setFromSpherical :: "spherical \<Rightarrow> vec3" where
  "setFromSpherical sp =
    (let sinPhiRadius = sin (phi sp) * radius sp
     in Vector3 (sinPhiRadius * sin (theta sp)) (cos (phi sp) * radius sp)
                (sinPhiRadius * cos (theta sp)))"

definition updateCameraFromSpherical :: "visualizer \<Rightarrow> visualizer" where
  "updateCameraFromSpherical s =
    (case cam s of
       None \<Rightarrow> s
     | Some c \<Rightarrow>
         s\<lparr>cam := Some (c\<lparr>position := vadd (setFromSpherical (spherical (orbit s))) (target (orbit s)),
                          lookAtPoint := target (orbit s)\<rparr>)\<rparr>)"

text \<open>
  \<open>updateCameraLookAround\<close>: the direction (0, 0, -1) rotated by the Euler angles
  (-pitch, -yaw, 0) in order YXZ, looked at from the camera.
\<close>

definition updateCameraLookAround :: "visualizer \<Rightarrow> visualizer" where
  "updateCameraLookAround s =
    (case cam s of
       None \<Rightarrow> s
     | Some c \<Rightarrow>
         if viewAngle s \<noteq> ViewFront then s
         else
           (let yaw = currentYaw (lookAround s);
                pitch = currentPitch (lookAround s);
                direction = Vector3 (cos pitch * sin yaw) (- sin pitch) (- (cos pitch * cos yaw))
            in s\<lparr>cam := Some (c\<lparr>lookAtPoint := direction\<rparr>)\<rparr>))"

definition applyZoom :: "real \<Rightarrow> real \<Rightarrow> visualizer \<Rightarrow> visualizer" where
  "applyZoom delta sensitivity s =
    (if cam s = None \<or> viewAngle s \<noteq> View3D \<or> \<not> enabled (orbit s) then s
     else
       (let adjustedDelta = 1 + (delta - 1) * sensitivity;
            newZoomFactor = zoomFactor (zoom s) * adjustedDelta;
            zf = max minZoom (min maxZoom newZoomFactor);
            newRadius = baseDistance (zoom s) / zf;
            s1 = s\<lparr>zoom := (zoom s)\<lparr>zoomFactor := zf\<rparr>,
                   orbit := (orbit s)\<lparr>spherical :=
                              (spherical (orbit s))\<lparr>radius := max 0.01 newRadius\<rparr>\<rparr>\<rparr>
        in updateCameraFromSpherical s1))"

definition calculateFurthestScreenDistance :: "visualizer \<Rightarrow> real" where
  "calculateFurthestScreenDistance s =
    (if screens s = [] then PRESET_DISTANCE
     else foldl (\<lambda>maxDistance screen. max maxDistance (js_or (distance screen) PRESET_DISTANCE))
            0 (screens s))"

definition calculateLookAroundFOVLimits :: "visualizer \<Rightarrow> real \<times> real" where
  "calculateLookAroundFOVLimits s =
    (if screens s = [] then (pi / 6, pi / 6)
     else foldl (\<lambda>(maxHalfYaw, maxHalfPitch) screen.
              (let (widthMeters, heightMeters) = screenSizeMeters screen;
                   distanceMeters = js_or (distance screen) PRESET_DISTANCE / 1000;
                   halfYaw = atan2 (widthMeters / 2) distanceMeters;
                   halfPitch = atan2 (heightMeters / 2) distanceMeters
               in (max maxHalfYaw halfYaw, max maxHalfPitch halfPitch)))
            (0, 0) (screens s))"

definition updateSphereVisibility :: "visualizer \<Rightarrow> visualizer" where
  "updateSphereVisibility s =
    (if \<not> userSphere s then s
     else
       (let shouldBeVisible = (viewAngle s \<noteq> ViewFront);
            s1 = (if sphereVisible s \<noteq> shouldBeVisible
                  then s\<lparr>sphereVisible := shouldBeVisible,
                         targetSphereOpacity := (if shouldBeVisible then 1 else 0),
                         sphereAnimating := True\<rparr>
                  else s)
        in s1\<lparr>orbit := (orbit s1)\<lparr>enabled := (viewAngle s1 = View3D)\<rparr>\<rparr>))"

text \<open>
  \<open>updateCameraPosition\<close>. In the isometric branch the offset's x component is
  \<open>cameraSide\<close>, at least 0.3, so the division by \<open>radius\<close> is by a positive number
  (lemma \<open>isometric_offset_radius_pos\<close> below).
\<close>

definition updateCameraPosition :: "visualizer \<Rightarrow> visualizer" where
  "updateCameraPosition s =
    (if cam s = None then s
     else
       (let s1 =
          (case viewAngle s of
             ViewFront \<Rightarrow>
               s\<lparr>targetCameraPosition := Vector3 0 0 0,
                 targetCameraLookAt := Vector3 0 0 (- 1),
                 zoom := (zoom s)\<lparr>zoomFactor := 1.0, baseDistance := 1.0\<rparr>\<rparr>
           | ViewTop \<Rightarrow>
               (let furthestDistance = calculateFurthestScreenDistance s;
                    furthestDistanceMeters = furthestDistance / 1000;
                    midpointZ = - furthestDistanceMeters / 2;
                    cameraHeight = max 0.8 (furthestDistanceMeters * 1.5)
                in s\<lparr>targetCameraPosition := Vector3 0 cameraHeight midpointZ,
                     targetCameraLookAt := Vector3 0 0 midpointZ,
                     orbit := (orbit s)\<lparr>target := Vector3 0 0 midpointZ\<rparr>,
                     zoom := (zoom s)\<lparr>zoomFactor := 1.0, baseDistance := cameraHeight\<rparr>\<rparr>)
           | View3D \<Rightarrow>
               (let furthestDistance = calculateFurthestScreenDistance s;
                    furthestDistanceMeters = furthestDistance / 1000;
                    cameraDistance = max 0.1 (furthestDistanceMeters * 0.2);
                    cameraHeight = cameraDistance * 2;
                    cameraSide = cameraDistance * 3;
                    targetPosition = Vector3 cameraSide cameraHeight cameraDistance;
                    midpointZ = - furthestDistanceMeters / 2;
                    rotationCenter = Vector3 0 0 midpointZ;
                    offset = vsub targetPosition rotationCenter;
                    sp = sphericalFromOffset offset
                in s\<lparr>targetCameraPosition := targetPosition,
                     targetCameraLookAt := rotationCenter,
                     orbit := (orbit s)\<lparr>target := rotationCenter, spherical := sp\<rparr>,
                     zoom := (zoom s)\<lparr>zoomFactor := 1.0, baseDistance := radius sp\<rparr>\<rparr>))
        in updateSphereVisibility (s1\<lparr>isAnimating := True\<rparr>)))"

section \<open>Input router\<close>

text \<open>
  The handlers that \<open>setupOrbitControls\<close> installs. A pointer or touch is its
  (\<open>clientX\<close>, \<open>clientY\<close>); a touch event is the list \<open>event.touches\<close>.
  \<open>setupOrbitControls\<close> returns before installing anything when there is no camera, so
  the \<open>None\<close> branches below are never taken by an installed handler.
\<close>

type_synonym pointer = "real \<times> real"

text \<open>The block shared by \<open>onMouseDown\<close> and \<open>onTouchStart\<close>: when the view is isometric,
  re-derive the orbit's spherical coordinates from the live camera position, if the
  offset is not zero; a zero offset leaves the orbit state as it is.\<close>

definition startOrbitDrag :: "pointer \<Rightarrow> visualizer \<Rightarrow> visualizer" where
  "startOrbitDrag p s =
    (let s1 = s\<lparr>orbit := (orbit s)\<lparr>dragging := True, mouseX := fst p, mouseY := snd p\<rparr>,
                isAnimating := False\<rparr>
     in if viewAngle s1 = View3D then
          (case cam s1 of
             None \<Rightarrow> s1
           | Some c \<Rightarrow>
               (let offset = vsub (position c) (target (orbit s1));
                    r = vlength offset
                in if r > 0
                   then s1\<lparr>orbit := (orbit s1)\<lparr>spherical := sphericalFromOffset offset\<rparr>\<rparr>
                   else s1))
        else s1)"

definition startLookAround :: "pointer \<Rightarrow> visualizer \<Rightarrow> visualizer" where
  "startLookAround p s =
    (let (my, mp) = calculateLookAroundFOVLimits s
     in s\<lparr>lookAround := (lookAround s)
           \<lparr>lookDragging := True, lookMouseX := fst p, lookMouseY := snd p,
            springBack := False, maxYaw := my, maxPitch := mp\<rparr>\<rparr>)"

definition onMouseDown :: "pointer \<Rightarrow> visualizer \<Rightarrow> visualizer" where
  "onMouseDown p s =
    (if viewAngle s = ViewFront then startLookAround p s
     else if \<not> enabled (orbit s) then s
     else startOrbitDrag p s)"

definition onTouchStart :: "pointer list \<Rightarrow> visualizer \<Rightarrow> visualizer" where
  "onTouchStart touches s =
    (if viewAngle s = ViewFront \<and> length touches = 1 then startLookAround (hd touches) s
     else if \<not> enabled (orbit s) \<or> length touches \<noteq> 1 then s
     else startOrbitDrag (hd touches) s)"

text \<open>The look-around move and the orbit move, shared by the mouse and the touch
  handler (rotate speeds 0.003 and 0.01).\<close>

definition moveLookAround :: "pointer \<Rightarrow> visualizer \<Rightarrow> visualizer" where
  "moveLookAround p s =
    (let la = lookAround s;
         deltaX = fst p - lookMouseX la;
         deltaY = snd p - lookMouseY la;
         rotateSpeed = 0.003;
         yaw = currentYaw la - deltaX * rotateSpeed;
         pitch = currentPitch la - deltaY * rotateSpeed;
         yaw' = max (- maxYaw la) (min (maxYaw la) yaw);
         pitch' = max (- maxPitch la) (min (maxPitch la) pitch);
         s1 = updateCameraLookAround (s\<lparr>lookAround := la\<lparr>currentYaw := yaw', currentPitch := pitch'\<rparr>\<rparr>)
     in s1\<lparr>lookAround := (lookAround s1)\<lparr>lookMouseX := fst p, lookMouseY := snd p\<rparr>\<rparr>)"

definition moveOrbit :: "pointer \<Rightarrow> visualizer \<Rightarrow> visualizer" where
  "moveOrbit p s =
    (let ob = orbit s;
         deltaX = fst p - mouseX ob;
         deltaY = snd p - mouseY ob;
         rotateSpeed = 0.01;
         theta' = theta (spherical ob) - deltaX * rotateSpeed;
         phi' = phi (spherical ob) - deltaY * rotateSpeed;
         phi'' = max 0.1 (min (pi - 0.1) phi');
         s1 = updateCameraFromSpherical
                (s\<lparr>orbit := ob\<lparr>spherical := (spherical ob)\<lparr>theta := theta', phi := phi''\<rparr>\<rparr>\<rparr>)
     in s1\<lparr>orbit := (orbit s1)\<lparr>mouseX := fst p, mouseY := snd p\<rparr>\<rparr>)"

definition onMouseMove :: "pointer \<Rightarrow> visualizer \<Rightarrow> visualizer" where
  "onMouseMove p s =
    (if viewAngle s = ViewFront \<and> lookDragging (lookAround s) then moveLookAround p s
     else if \<not> enabled (orbit s) \<or> \<not> dragging (orbit s) then s
     else moveOrbit p s)"

definition onTouchMove :: "pointer list \<Rightarrow> visualizer \<Rightarrow> visualizer" where
  "onTouchMove touches s =
    (if viewAngle s = ViewFront \<and> lookDragging (lookAround s) \<and> length touches = 1
     then moveLookAround (hd touches) s
     else if \<not> enabled (orbit s) \<or> \<not> dragging (orbit s) \<or> length touches \<noteq> 1 then s
     else moveOrbit (hd touches) s)"

definition onMouseUp :: "visualizer \<Rightarrow> visualizer" where
  "onMouseUp s =
    (if viewAngle s = ViewFront \<and> lookDragging (lookAround s)
     then s\<lparr>lookAround := (lookAround s)\<lparr>lookDragging := False, springBack := True\<rparr>\<rparr>
     else s\<lparr>orbit := (orbit s)\<lparr>dragging := False\<rparr>\<rparr>)"

definition onTouchEnd :: "visualizer \<Rightarrow> visualizer" where
  "onTouchEnd s =
    (if viewAngle s = ViewFront \<and> lookDragging (lookAround s)
     then s\<lparr>lookAround := (lookAround s)\<lparr>lookDragging := False, springBack := True\<rparr>\<rparr>
     else s\<lparr>orbit := (orbit s)\<lparr>dragging := False\<rparr>, zoom := (zoom s)\<lparr>pinching := False\<rparr>\<rparr>)"

definition onWheel :: "real \<Rightarrow> visualizer \<Rightarrow> visualizer" where
  "onWheel deltaY s =
    (if viewAngle s \<noteq> View3D \<or> \<not> enabled (orbit s) then s
     else
       (let zoomSpeed = 0.1;
            delta = (if deltaY > 0 then 1 + zoomSpeed else 1 - zoomSpeed)
        in applyZoom delta 1.0 s))"

text \<open>The distance between the two touches of a pinch.\<close>

definition pinchDistance :: "pointer list \<Rightarrow> real" where
  "pinchDistance touches =
    (let touch1 = touches ! 0; touch2 = touches ! 1;
         dx = fst touch2 - fst touch1;
         dy = snd touch2 - snd touch1
     in sqrt (dx * dx + dy * dy))"

definition onTouchStartEnhanced :: "pointer list \<Rightarrow> visualizer \<Rightarrow> visualizer" where
  "onTouchStartEnhanced touches s =
    (if length touches = 1 then onTouchStart touches s
     else if length touches = 2 then
       (if viewAngle s \<noteq> View3D \<or> \<not> enabled (orbit s) then s
        else s\<lparr>orbit := (orbit s)\<lparr>dragging := False\<rparr>,
               zoom := (zoom s)\<lparr>pinching := True, lastPinchDistance := pinchDistance touches\<rparr>\<rparr>)
     else s)"

definition onTouchMoveEnhanced :: "pointer list \<Rightarrow> visualizer \<Rightarrow> visualizer" where
  "onTouchMoveEnhanced touches s =
    (if length touches = 1 \<and> \<not> pinching (zoom s) then onTouchMove touches s
     else if length touches = 2 \<and> pinching (zoom s) then
       (if viewAngle s \<noteq> View3D \<or> \<not> enabled (orbit s)
        then s\<lparr>zoom := (zoom s)\<lparr>pinching := False\<rparr>\<rparr>
        else
          (let currentPinchDistance = pinchDistance touches;
               s1 = (if lastPinchDistance (zoom s) > 0
                     then applyZoom (currentPinchDistance / lastPinchDistance (zoom s)) 0.5 s
                     else s)
           in s1\<lparr>zoom := (zoom s1)\<lparr>lastPinchDistance := currentPinchDistance\<rparr>\<rparr>))
     else s)"

text \<open>The input events that move the orbit camera or zoom it, and their dispatch.\<close>

datatype inputEvent =
    MouseMove pointer
  | TouchMove "pointer list"
  | Wheel real

fun handleEvent :: "visualizer \<Rightarrow> inputEvent \<Rightarrow> visualizer" where
  "handleEvent s (MouseMove p) = onMouseMove p s"
| "handleEvent s (TouchMove touches) = onTouchMoveEnhanced touches s"
| "handleEvent s (Wheel deltaY) = onWheel deltaY s"

section \<open>Animation driver, isometric view\<close>

text \<open>
  The azimuth step of \<open>animateCamera\<close>: the difference is reduced by one turn when it is
  above \<open>pi\<close>, then raised by one turn when it is below \<open>-pi\<close>, and a fraction of it is
  added to the current angle.
\<close>

definition wrapDeltaTheta :: "real \<Rightarrow> real" where
  "wrapDeltaTheta deltaTheta =
    (let d1 = (if deltaTheta > pi then deltaTheta - 2 * pi else deltaTheta);
         d2 = (if d1 < - pi then d1 + 2 * pi else d1)
     in d2)"

definition interpolateTheta :: "real \<Rightarrow> real \<Rightarrow> real" where
  "interpolateTheta currentTheta targetTheta =
     currentTheta + wrapDeltaTheta (targetTheta - currentTheta) * animationSpeed"

text \<open>
  The spherical coordinates written at convergence (lines 1330 to 1338). There is no
  guard here: with a zero offset \<open>offset.y / radius\<close> is 0/0, which is NaN in JavaScript,
  and NaN passes through \<open>Math.min\<close>, \<open>Math.max\<close> and \<open>Math.acos\<close>; \<open>None\<close> stands for that
  NaN polar angle.
\<close>

datatype anomaly = NaN_spherical

definition convergenceSpherical :: "vec3 \<Rightarrow> spherical option" where
  "convergenceSpherical offset =
    (if vlength offset = 0 then None else Some (sphericalFromOffset offset))"

text \<open>
  The branch \<open>else if (this.viewAngle === '3d')\<close> of \<open>animateCamera\<close>, with the method's
  entry test. The fallback initialisation of \<open>_currentSpherical\<close> is guarded and uses
  \<open>Spherical(1, PI/4, PI/4)\<close> for a zero offset.
\<close>

definition animateCamera_3d :: "visualizer \<Rightarrow> anomaly + visualizer" where
  "animateCamera_3d s =
    (case cam s of
       None \<Rightarrow> Inr s
     | Some c \<Rightarrow>
       if \<not> isAnimating s then Inr s
       else
        (let targetUp = Vector3 0 1 0;
             up0 = (case currentUp s of None \<Rightarrow> up c | Some u \<Rightarrow> u);
             up1 = vlerp up0 targetUp animationSpeed;
             ot0 = (case currentOrbitTarget s of None \<Rightarrow> target (orbit s) | Some t \<Rightarrow> t);
             ot1 = vlerp ot0 (target (orbit s)) animationSpeed;
             sp0 = (case currentSpherical s of
                      Some sp \<Rightarrow> sp
                    | None \<Rightarrow>
                        (let offset = vsub (position c) ot1;
                             r = vlength offset
                         in if r > 0 then sphericalFromOffset offset
                            else \<lparr>radius = 1, phi = pi / 4, theta = pi / 4\<rparr>));
             sp1 = \<lparr>radius = lerp (radius sp0) (radius (spherical (orbit s))) animationSpeed,
                    phi = lerp (phi sp0) (phi (spherical (orbit s))) animationSpeed,
                    theta = interpolateTheta (theta sp0) (theta (spherical (orbit s)))\<rparr>;
             pos1 = vadd (setFromSpherical sp1) ot1;
             positionDistance = distanceTo pos1 (targetCameraPosition s);
             targetDistance = distanceTo ot1 (target (orbit s));
             upDistance = distanceTo up1 targetUp
         in if positionDistance < 0.001 \<and> targetDistance < 0.001 \<and> upDistance < 0.001 then
              (case convergenceSpherical (vsub (targetCameraPosition s) (target (orbit s))) of
                 None \<Rightarrow> Inl NaN_spherical
               | Some sp \<Rightarrow>
                   Inr (s\<lparr>cam := Some \<lparr>position = targetCameraPosition s, up = Vector3 0 1 0,
                                       lookAtPoint = target (orbit s)\<rparr>,
                          isAnimating := False,
                          currentLookAt := None, currentUp := None,
                          currentSpherical := None, currentOrbitTarget := None,
                          orbit := (orbit s)\<lparr>spherical := sp\<rparr>\<rparr>))
            else
              Inr (s\<lparr>cam := Some \<lparr>position = pos1, up = up1, lookAtPoint = ot1\<rparr>,
                     currentLookAt := None, currentUp := Some up1,
                     currentOrbitTarget := Some ot1, currentSpherical := Some sp1\<rparr>)))"

section \<open>Switching the view\<close>

text \<open>
  \<open>setViewAngle\<close>. \<open>isInitialized\<close> is set by \<open>init3D\<close> after the camera is created, so the
  \<open>None\<close> branch is not reached. Entering the isometric view seeds the animation
  helpers from the camera's state before the switch; a zero offset seeds
  \<open>Spherical(1, PI/2, 0)\<close>.
\<close>

definition setViewAngle :: "viewAngle \<Rightarrow> visualizer \<Rightarrow> visualizer" where
  "setViewAngle angle s =
    (if viewAngle s = angle then s
     else
      (let s1 = s\<lparr>viewAngle := angle\<rparr>;
           s2 = (if angle = ViewFront
                 then s1\<lparr>lookAround := (lookAround s1)
                         \<lparr>currentYaw := 0, currentPitch := 0,
                          lookDragging := False, springBack := False\<rparr>\<rparr>
                 else s1)
       in if \<not> isInitialized s2 then s2
          else
           (case cam s2 of
              None \<Rightarrow> s2
            | Some c \<Rightarrow>
               (let previousCameraPosition = position c;
                    previousUp = up c;
                    previousOrbitTarget = target (orbit s2);
                    s3 = updateCameraPosition s2
                in if angle = View3D then
                     (let offset = vsub previousCameraPosition previousOrbitTarget;
                          r = vlength offset;
                          sp = (if r > 0 then sphericalFromOffset offset
                                else \<lparr>radius = 1, phi = pi / 2, theta = 0\<rparr>)
                      in s3\<lparr>currentOrbitTarget := Some previousOrbitTarget,
                            currentUp := Some previousUp,
                            currentSpherical := Some sp\<rparr>)
                   else s3))))"

section \<open>Scene composer: change detection\<close>

text \<open>\<open>Array.prototype.join\<close>.\<close>

fun join :: "string \<Rightarrow> string list \<Rightarrow> string" where
  "join sep [] = []"
| "join sep [a] = a"
| "join sep (a # b # bs) = a @ sep @ join sep (b # bs)"

text \<open>The template literal of \<open>generateScreensHash\<close> for one screen.\<close>

definition screenSignature :: "env \<Rightarrow> screenData \<Rightarrow> string" where
  "screenSignature e screen =
     numberToString e (diagonal screen) @ ''-'' @
     numberToString e (fst (resolution screen)) @ ''x'' @
     numberToString e (snd (resolution screen)) @ ''-'' @
     numberToString e (distance screen) @ ''-'' @
     (case curvature screen of None \<Rightarrow> ''null'' | Some c \<Rightarrow> numberToString e c) @ ''-'' @
     numberToString e (scaling screen) @ ''-'' @
     (case screenNumber screen of None \<Rightarrow> ''undefined'' | Some n \<Rightarrow> numberToString e (real n))"

text \<open>\<open>sort()\<close> without a comparator orders strings by their code units; this is the
  lexicographic order on \<^typ>\<open>string\<close>.\<close>

definition generateScreensHash :: "env \<Rightarrow> screenData list \<Rightarrow> string" where
  "generateScreensHash e scs =
    (if scs = [] then ''empty''
     else join ''|'' (sort (map (screenSignature e) scs)))"

definition calculateDistanceHash :: "env \<Rightarrow> visualizer \<Rightarrow> string" where
  "calculateDistanceHash e s =
    (if screens s = [] then ''no-screens''
     else join ''-'' (map (numberToString e)
            (sort (map (\<lambda>screen. js_or (distance screen) PRESET_DISTANCE) (screens s)))))"

definition hasDistanceChanged :: "env \<Rightarrow> visualizer \<Rightarrow> bool \<times> visualizer" where
  "hasDistanceChanged e s =
    (let currentDistanceHash = calculateDistanceHash e s
     in if lastDistanceHash s \<noteq> Some currentDistanceHash
        then (True, s\<lparr>lastDistanceHash := Some currentDistanceHash\<rparr>)
        else (False, s))"

definition hasThemeChanged :: "env \<Rightarrow> visualizer \<Rightarrow> bool \<times> visualizer" where
  "hasThemeChanged e s =
    (let currentTheme = effectiveTheme e
     in if lastTheme s \<noteq> currentTheme then (True, s\<lparr>lastTheme := currentTheme\<rparr>)
        else (False, s))"

definition hasScreenDataChanged :: "env \<Rightarrow> screenData list \<Rightarrow> visualizer \<Rightarrow> bool \<times> visualizer" where
  "hasScreenDataChanged e scs s =
    (let currentHash = generateScreensHash e scs;
         currentCanvasSize = canvasSize e;
         sizeChanged = (fst (lastCanvasSize s) \<noteq> fst currentCanvasSize \<or>
                        snd (lastCanvasSize s) \<noteq> snd currentCanvasSize);
         (themeChanged, s1) = hasThemeChanged e s
     in if lastScreensHash s1 \<noteq> Some currentHash \<or> sizeChanged \<or> themeChanged
        then (True, s1\<lparr>lastScreensHash := Some currentHash,
                       lastCanvasSize := currentCanvasSize\<rparr>)
        else (False, s1))"

text \<open>\<open>updateCameraPositionResponsive\<close> arms the debounce timer; \<open>updateViewAxisLine\<close>
  moves the far end of the view axis line.\<close>

definition updateCameraPositionResponsive :: "visualizer \<Rightarrow> visualizer" where
  "updateCameraPositionResponsive s =
    (if viewAngle s = ViewFront \<or> \<not> isInitialized s then s
     else s\<lparr>responseTimeoutId := True\<rparr>)"

definition updateViewAxisLine :: "visualizer \<Rightarrow> visualizer" where
  "updateViewAxisLine s =
    (if viewAxisLine s = None \<or> \<not> isInitialized s then s
     else s\<lparr>viewAxisLine := Some (- calculateFurthestScreenDistance s / 1000)\<rparr>)"

definition updateScreens :: "env \<Rightarrow> screenData list \<Rightarrow> visualizer \<Rightarrow> visualizer" where
  "updateScreens e scs s =
    (let s1 = s\<lparr>screens := scs\<rparr>;
         (distanceChanged, s2) = hasDistanceChanged e s1;
         s3 = (if isInitialized s2 then
                 (let (changed, s2') = hasScreenDataChanged e (screens s2) s2
                  in if changed then updateViewAxisLine (createScreens s2') else s2')
               else s2);
         s4 = (if isInitialized s3 \<and> distanceChanged
               then updateViewAxisLine (updateCameraPositionResponsive s3)
               else s3)
     in s4)"

section \<open>Construction and initialisation\<close>

text \<open>The state the constructor leaves, and \<open>init3D\<close> on its successful path (canvas
  found, WebGL renderer created). A new \<open>PerspectiveCamera\<close> sits at the origin with up
  vector (0, 1, 0), looking along the negative z axis.\<close>

definition constructor :: "env \<Rightarrow> visualizer" where
  "constructor e =
    \<lparr>screens = [], viewAngle = ViewFront, cam = None,
     orbit = \<lparr>enabled = False, dragging = False, mouseX = 0, mouseY = 0,
              spherical = \<lparr>radius = 1, phi = pi / 2, theta = 0\<rparr>, target = Vector3 0 0 0\<rparr>,
     zoom = \<lparr>zoomFactor = 1.0, baseDistance = 1.0, pinching = False, lastPinchDistance = 0\<rparr>,
     lookAround = \<lparr>lookDragging = False, lookMouseX = 0, lookMouseY = 0, currentYaw = 0,
                   currentPitch = 0, maxYaw = 0, maxPitch = 0, springBack = False\<rparr>,
     screenMeshes = [], userSphere = False, viewAxisLine = None, isInitialized = False,
     lastScreensHash = None, lastCanvasSize = (0, 0), lastTheme = effectiveTheme e,
     isAnimating = False, targetCameraPosition = Vector3 0 0 0,
     targetCameraLookAt = Vector3 0 0 (- 1), responseTimeoutId = False,
     lastDistanceHash = None, sphereAnimating = False, targetSphereOpacity = 0,
     sphereVisible = False, currentLookAt = None, currentUp = None,
     currentOrbitTarget = None, currentSpherical = None\<rparr>"

definition createUserSphere :: "visualizer \<Rightarrow> visualizer" where
  "createUserSphere s = updateSphereVisibility (s\<lparr>userSphere := True\<rparr>)"

definition createViewAxisLine :: "visualizer \<Rightarrow> visualizer" where
  "createViewAxisLine s = s\<lparr>viewAxisLine := Some (- calculateFurthestScreenDistance s / 1000)\<rparr>"

definition init3D :: "visualizer \<Rightarrow> visualizer" where
  "init3D s =
    (let c = \<lparr>position = Vector3 0 0 0, up = Vector3 0 1 0, lookAtPoint = Vector3 0 0 (- 1)\<rparr>;
         s1 = updateCameraPosition (s\<lparr>cam := Some c\<rparr>);
         s2 = s1\<lparr>targetCameraPosition := position c, targetCameraLookAt := Vector3 0 0 (- 1)\<rparr>;
         s3 = createScreens s2;
         s4 = createUserSphere s3;
         s5 = createViewAxisLine s4
     in s5\<lparr>isInitialized := True\<rparr>)"

section \<open>Example inputs\<close>

text \<open>A page environment, and a flat 4:3 screen with a 5 inch diagonal (3 by 4 by 5
  triangle) at 600 mm.\<close>

definition exampleEnv :: env where
  "exampleEnv = \<lparr>canvasSize = (800, 600), effectiveTheme = Light, numberToString = (\<lambda>_. ''n'')\<rparr>"

definition flat43 :: screenData where
  "flat43 = \<lparr>diagonal = 5, resolution = (4, 3), distance = 600, curvature = None,
             scaling = 100, screenNumber = Some 1\<rparr>"

text \<open>The thickness of a border frame, read off its first piece: the top box of a flat
  frame (its height), or the inner cylinder face of a curved frame's top section.\<close>

definition geometryThickness :: "geometry \<Rightarrow> real" where
  "geometryThickness g =
    (case g of
       BoxGeometry _ t _ \<Rightarrow> t
     | CylinderGeometry _ _ t _ _ _ _ _ \<Rightarrow> t
     | _ \<Rightarrow> 0)"

definition frameThickness :: "object3D \<Rightarrow> real" where
  "frameThickness b = geometryThickness (hd (geometries b))"

text \<open>The arc angle and segment count of a curved piece.\<close>

definition arcOf :: "geometry \<Rightarrow> (real \<times> int) option" where
  "arcOf g =
    (case g of
       CylinderGeometry _ _ _ sg _ _ _ len \<Rightarrow> Some (len, sg)
     | CurvedCap _ _ sg _ len \<Rightarrow> Some (len, sg)
     | _ \<Rightarrow> None)"

text \<open>A spec with diagonal 0 and distance 0.\<close>

definition zeroSpec :: screenData where
  "zeroSpec = \<lparr>diagonal = 0, resolution = (4, 3), distance = 0, curvature = None,
               scaling = 100, screenNumber = Some 1\<rparr>"

section \<open>Invariants and event sequences\<close>

text \<open>The bounds on the polar angle and on the zoom factor, the conditions under which
  a move event turns the orbit and a zoom applies, and a series of \<open>applyZoom\<close> calls,
  each with its delta and its sensitivity.\<close>

definition phiOk :: "visualizer \<Rightarrow> bool" where
  "phiOk s = (0.1 \<le> phi (spherical (orbit s)) \<and> phi (spherical (orbit s)) \<le> pi - 0.1)"

definition zoomOk :: "visualizer \<Rightarrow> bool" where
  "zoomOk s = (0.2 \<le> zoomFactor (zoom s) \<and> zoomFactor (zoom s) \<le> 5.0)"

definition orbitDragActive :: "visualizer \<Rightarrow> bool" where
  "orbitDragActive s =
    (enabled (orbit s) \<and> dragging (orbit s) \<and>
     \<not> (viewAngle s = ViewFront \<and> lookDragging (lookAround s)))"

fun orbitMoveApplies :: "visualizer \<Rightarrow> inputEvent \<Rightarrow> bool" where
  "orbitMoveApplies s (MouseMove p) = orbitDragActive s"
| "orbitMoveApplies s (TouchMove touches) =
     (orbitDragActive s \<and> length touches = 1 \<and> pinching (zoom s) = False)"
| "orbitMoveApplies s (Wheel deltaY) = False"

definition zoomActive :: "visualizer \<Rightarrow> bool" where
  "zoomActive s = (cam s \<noteq> None \<and> viewAngle s = View3D \<and> enabled (orbit s))"

definition applyZooms :: "visualizer \<Rightarrow> (real \<times> real) list \<Rightarrow> visualizer" where
  "applyZooms s ds = foldl (\<lambda>s' (delta, sensitivity). applyZoom delta sensitivity s') s ds"

text \<open>An initialised visualizer switched to the isometric view, and the same with an
  orbit drag started at (100, 100).\<close>

definition isoState :: visualizer where
  "isoState = setViewAngle View3D (init3D (constructor exampleEnv))"

definition orbitingState :: visualizer where
  "orbitingState = onMouseDown (100, 100) isoState"

text \<open>The 4:3 example screen at a given distance in millimeters, and the isometric state
  after \<open>updateScreens\<close> with screens at the given distances.\<close>

definition screenAt :: "real \<Rightarrow> screenData" where
  "screenAt d = flat43\<lparr>distance := d\<rparr>"

definition isoWith :: "real list \<Rightarrow> visualizer" where
  "isoWith ds = updateScreens exampleEnv (map screenAt ds) isoState"

text \<open>A well-formed spherical state: positive radius, polar angle in [0, pi], azimuth
  in (-pi, pi].\<close>

definition validSpherical :: "spherical \<Rightarrow> bool" where
  "validSpherical sp =
    (0 < radius sp \<and> 0 \<le> phi sp \<and> phi sp \<le> pi \<and> - pi < theta sp \<and> theta sp \<le> pi)"

text \<open>The isometric state with the orbit target moved onto the camera (a zero offset)
  and a given spherical state.\<close>

definition zeroOffsetState :: "spherical \<Rightarrow> visualizer" where
  "zeroOffsetState sp = isoState\<lparr>orbit := (orbit isoState)\<lparr>target := Vector3 0 0 0, spherical := sp\<rparr>\<rparr>"

text \<open>A state at rest on a zero offset: camera, orbit target and target camera
  position at the origin, spherical radius 0, animation running.\<close>

definition restingZeroState :: visualizer where
  "restingZeroState =
     (zeroOffsetState \<lparr>radius = 0, phi = pi / 2, theta = 0\<rparr>)
       \<lparr>targetCameraPosition := Vector3 0 0 0,
        currentSpherical := Some \<lparr>radius = 0, phi = pi / 2, theta = 0\<rparr>,
        currentOrbitTarget := Some (Vector3 0 0 0),
        currentUp := Some (Vector3 0 1 0)\<rparr>"

text \<open>The camera as \<open>init3D\<close> creates it.\<close>

definition freshCamera :: camera where
  "freshCamera = \<lparr>position = Vector3 0 0 0, up = Vector3 0 1 0, lookAtPoint = Vector3 0 0 (- 1)\<rparr>"

section \<open>Auxiliary facts\<close>

subsection \<open>Geometry builder\<close>

lemma screenSizeMeters_eq:
  "screenSizeMeters sd =
     (fst (resolution sd) / snd (resolution sd) *
        (diagonal sd / sqrt ((fst (resolution sd) / snd (resolution sd))\<^sup>2 + 1)) * 25.4 / 1000,
      diagonal sd / sqrt ((fst (resolution sd) / snd (resolution sd))\<^sup>2 + 1) * 25.4 / 1000)"
  by (simp add: screenSizeMeters_def INCHES_TO_MM_def Let_def)

lemma createSingleScreen_last:
  "last (screenMeshes (createSingleScreen sd index s)) =
      \<lparr>border = position_set (Vector3 0 0 (- (js_or (distance sd) PRESET_DISTANCE) / 1000 + real index * 0.001))
                 (createScreenBorder (fst (screenSizeMeters sd)) (snd (screenSizeMeters sd))
                    (curvature_or_null (curvature sd))),
       centerPanel = position_set (Vector3 0 0 (- (js_or (distance sd) PRESET_DISTANCE) / 1000 + real index * 0.001))
                 (createCenterPanel (fst (screenSizeMeters sd)) (snd (screenSizeMeters sd))
                    (curvature_or_null (curvature sd))),
       meshScreenData = sd,
       colorIndex = (screenNumber_or (screenNumber sd) (index + 1) - 1) mod SCREEN_COLORS_length\<rparr>"
  by (simp add: createSingleScreen_def Let_def split_beta)

lemma sqrt_4_3: "sqrt ((4 / 3)\<^sup>2 + 1) = 5 / 3"
  by (rule real_sqrt_unique) (simp_all add: power2_eq_square)

lemma position_of_position_set: "position_of (position_set p ob) = p"
  by (cases ob) simp_all

lemma createSingleScreen_length:
  "length (screenMeshes (createSingleScreen sd index s)) = length (screenMeshes s) + 1"
  by (simp add: createSingleScreen_def Let_def split_beta)

lemma arc_roundtrip: "0 < c \<Longrightarrow> w / (c / 1000) * (c / 1000) = (w::real)"
  by simp

lemma panel_geometries:
  "geometries (createCenterPanel w h (Some c)) =
     [CylinderGeometry (c / 1000) (c / 1000) h (max 32 \<lfloor>w / (c / 1000) * 32\<rfloor>) 1 True
        (pi - w / (c / 1000) / 2) (w / (c / 1000))]"
  by (simp add: createCenterPanel_def Let_def Math_floor_def)

lemma border_arcs:
  "map arcOf (geometries (createScreenBorder w h (Some c))) =
     (let a = Some (w / (c / 1000), max 32 \<lfloor>w / (c / 1000) * 32\<rfloor>)
      in [a, a, a, a, a, a, a, a, None, None])"
  by (simp add: createScreenBorder_def Let_def Math_floor_def arcOf_def)

subsection \<open>The polar angle under input events\<close>

lemma clamp_phi: "0.1 \<le> max 0.1 (min (pi - 0.1) (a::real)) \<and> max 0.1 (min (pi - 0.1) a) \<le> pi - 0.1"
  using pi_ge_two by (simp add: max_def min_def)

lemma orbit_updateCameraFromSpherical [simp]:
  "orbit (updateCameraFromSpherical s) = orbit s"
  by (simp add: updateCameraFromSpherical_def split: option.splits)

lemma zoom_updateCameraFromSpherical [simp]:
  "zoom (updateCameraFromSpherical s) = zoom s"
  by (simp add: updateCameraFromSpherical_def split: option.splits)

lemma orbit_updateCameraLookAround [simp]:
  "orbit (updateCameraLookAround s) = orbit s"
  by (simp add: updateCameraLookAround_def Let_def split: option.splits)

lemma zoom_updateCameraLookAround [simp]:
  "zoom (updateCameraLookAround s) = zoom s"
  by (simp add: updateCameraLookAround_def Let_def split: option.splits)

lemma lookAround_updateCameraLookAround [simp]:
  "lookAround (updateCameraLookAround s) = lookAround s"
  by (simp add: updateCameraLookAround_def Let_def split: option.splits)

lemma phi_applyZoom [simp]:
  "phi (spherical (orbit (applyZoom d k s))) = phi (spherical (orbit s))"
  by (simp add: applyZoom_def Let_def)

lemma phiOk_applyZoom: "phiOk (applyZoom d k s) = phiOk s"
  by (simp add: phiOk_def)

lemma phiOk_moveOrbit: "phiOk (moveOrbit p s)"
  using clamp_phi by (simp add: phiOk_def moveOrbit_def Let_def)

lemma phiOk_moveLookAround: "phiOk (moveLookAround p s) = phiOk s"
  by (simp add: phiOk_def moveLookAround_def Let_def)

lemma phiOk_onMouseMove: "phiOk s \<Longrightarrow> phiOk (onMouseMove p s)"
  by (simp add: onMouseMove_def phiOk_moveOrbit phiOk_moveLookAround)

lemma phiOk_onTouchMove: "phiOk s \<Longrightarrow> phiOk (onTouchMove ts s)"
  by (simp add: onTouchMove_def phiOk_moveOrbit phiOk_moveLookAround)

lemma phiOk_onWheel: "phiOk s \<Longrightarrow> phiOk (onWheel d s)"
  by (simp add: onWheel_def Let_def phiOk_applyZoom)

lemma phiOk_onTouchMoveEnhanced: "phiOk s \<Longrightarrow> phiOk (onTouchMoveEnhanced ts s)"
  by (simp add: onTouchMoveEnhanced_def Let_def phiOk_onTouchMove)
     (simp add: phiOk_def)

lemma phiOk_handleEvent: "phiOk s \<Longrightarrow> phiOk (handleEvent s ev)"
  by (cases ev) (simp_all add: phiOk_onMouseMove phiOk_onTouchMoveEnhanced phiOk_onWheel)

lemma phiOk_events: "phiOk s \<Longrightarrow> phiOk (foldl handleEvent s evs)"
  by (induction evs arbitrary: s) (simp_all add: phiOk_handleEvent)

lemma orbit_move_establishes: "orbitMoveApplies s ev \<Longrightarrow> phiOk (handleEvent s ev)"
  by (cases ev)
     (auto simp: orbitDragActive_def onMouseMove_def onTouchMoveEnhanced_def onTouchMove_def
        phiOk_moveOrbit)

subsection \<open>States after initialisation and after entering the isometric view\<close>

lemma furthest_empty: "screens s = [] \<Longrightarrow> calculateFurthestScreenDistance s = 600"
  by (simp add: calculateFurthestScreenDistance_def PRESET_DISTANCE_def)

lemma init3D_fields:
  "cam (init3D (constructor e)) =
      Some \<lparr>position = Vector3 0 0 0, up = Vector3 0 1 0, lookAtPoint = Vector3 0 0 (- 1)\<rparr>"
  "viewAngle (init3D (constructor e)) = ViewFront"
  "isInitialized (init3D (constructor e))"
  "screens (init3D (constructor e)) = []"
  "userSphere (init3D (constructor e))"
  "target (orbit (init3D (constructor e))) = Vector3 0 0 0"
  "lookDragging (lookAround (init3D (constructor e))) = False"
  "pinching (zoom (init3D (constructor e))) = False"
  by (simp_all add: init3D_def constructor_def updateCameraPosition_def updateSphereVisibility_def
      createViewAxisLine_def createUserSphere_def createScreens_def clearScreens_def
      createDefaultScreen_def createSingleScreen_def Let_def split_beta)

lemma isoState_fields:
  "cam isoState =
      Some \<lparr>position = Vector3 0 0 0, up = Vector3 0 1 0, lookAtPoint = Vector3 0 0 (- 1)\<rparr>"
  "viewAngle isoState = View3D"
  "enabled (orbit isoState)"
  "target (orbit isoState) = Vector3 0 0 (- 0.3)"
  "lookDragging (lookAround isoState) = False"
  "pinching (zoom isoState) = False"
  "currentSpherical isoState = Some \<lparr>radius = 1, phi = pi / 2, theta = 0\<rparr>"
  by (simp_all add: isoState_def setViewAngle_def init3D_fields updateCameraPosition_def
      updateSphereVisibility_def furthest_empty Let_def vsub_def vlength_def)

lemma orbitingState_fields:
  "enabled (orbit orbitingState)"
  "dragging (orbit orbitingState)"
  "viewAngle orbitingState = View3D"
  "pinching (zoom orbitingState) = False"
  "phi (spherical (orbit orbitingState)) = pi / 2"
  by (simp_all add: orbitingState_def onMouseDown_def startOrbitDrag_def isoState_fields Let_def
      vsub_def vlength_def sphericalFromOffset_def)

subsection \<open>The zoom factor under input events\<close>

lemma clamp_zoom:
  "0.2 \<le> max minZoom (min maxZoom (a::real)) \<and> max minZoom (min maxZoom a) \<le> 5"
  by (simp add: max_def min_def minZoom_def maxZoom_def)

lemma zoomOk_applyZoom: "zoomOk s \<Longrightarrow> zoomOk (applyZoom d k s)"
  using clamp_zoom by (simp add: zoomOk_def applyZoom_def Let_def)

lemma zoomActive_applyZoom: "zoomActive s \<Longrightarrow> zoomActive (applyZoom d k s)"
  by (auto simp: zoomActive_def applyZoom_def Let_def updateCameraFromSpherical_def)

lemma applyZoom_active:
  assumes "zoomActive s"
  shows "applyZoom d k s =
    updateCameraFromSpherical
      (s\<lparr>zoom := (zoom s)\<lparr>zoomFactor := max minZoom (min maxZoom (zoomFactor (zoom s) * (1 + (d - 1) * k)))\<rparr>,
         orbit := (orbit s)\<lparr>spherical := (spherical (orbit s))
           \<lparr>radius := max 0.01 (baseDistance (zoom s) /
               max minZoom (min maxZoom (zoomFactor (zoom s) * (1 + (d - 1) * k))))\<rparr>\<rparr>\<rparr>)"
proof -
  from assms have "\<not> (cam s = None \<or> viewAngle s \<noteq> View3D \<or> \<not> enabled (orbit s))"
    by (simp add: zoomActive_def)
  then show ?thesis
    unfolding applyZoom_def Let_def by (rule if_not_P)
qed

lemma applyZoom_establishes:
  assumes "zoomActive s"
  shows "zoomOk (applyZoom d k s)"
    and "radius (spherical (orbit (applyZoom d k s))) =
           max 0.01 (baseDistance (zoom (applyZoom d k s)) / zoomFactor (zoom (applyZoom d k s)))"
    and "0 < radius (spherical (orbit (applyZoom d k s)))"
  using clamp_zoom
  by (simp_all add: applyZoom_active [OF assms] zoomOk_def)

lemma applyZooms_snoc:
  "applyZooms s (ds @ [(d, k)]) = applyZoom d k (applyZooms s ds)"
  by (simp add: applyZooms_def)

lemma zoomOk_applyZooms: "zoomOk s \<Longrightarrow> zoomOk (applyZooms s ds)"
  by (induction ds rule: rev_induct) (auto simp: applyZooms_def zoomOk_applyZoom)

lemma zoomActive_applyZooms: "zoomActive s \<Longrightarrow> zoomActive (applyZooms s ds)"
  by (induction ds rule: rev_induct) (auto simp: applyZooms_def zoomActive_applyZoom)

lemma zoomOk_moveOrbit: "zoomOk (moveOrbit p s) = zoomOk s"
  by (simp add: zoomOk_def moveOrbit_def Let_def)

lemma zoomOk_moveLookAround: "zoomOk (moveLookAround p s) = zoomOk s"
  by (simp add: zoomOk_def moveLookAround_def Let_def)

lemma zoomOk_onMouseMove: "zoomOk s \<Longrightarrow> zoomOk (onMouseMove p s)"
  by (simp add: onMouseMove_def zoomOk_moveOrbit zoomOk_moveLookAround)

lemma zoomOk_onTouchMove: "zoomOk s \<Longrightarrow> zoomOk (onTouchMove ts s)"
  by (simp add: onTouchMove_def zoomOk_moveOrbit zoomOk_moveLookAround)

lemma zoomOk_onWheel: "zoomOk s \<Longrightarrow> zoomOk (onWheel d s)"
  by (simp add: onWheel_def Let_def zoomOk_applyZoom)

lemma zoomOk_lastPinch: "zoomOk (s\<lparr>zoom := (zoom s)\<lparr>lastPinchDistance := a\<rparr>\<rparr>) = zoomOk s"
  by (simp add: zoomOk_def)

lemma zoomOk_pinching: "zoomOk (s\<lparr>zoom := (zoom s)\<lparr>pinching := b\<rparr>\<rparr>) = zoomOk s"
  by (simp add: zoomOk_def)

lemma zoomOk_onTouchMoveEnhanced: "zoomOk s \<Longrightarrow> zoomOk (onTouchMoveEnhanced ts s)"
  by (simp add: onTouchMoveEnhanced_def Let_def zoomOk_onTouchMove zoomOk_lastPinch
      zoomOk_pinching zoomOk_applyZoom)

lemma zoomOk_handleEvent: "zoomOk s \<Longrightarrow> zoomOk (handleEvent s ev)"
  by (cases ev) (simp_all add: zoomOk_onMouseMove zoomOk_onTouchMoveEnhanced zoomOk_onWheel)

lemma zoomOk_events: "zoomOk s \<Longrightarrow> zoomOk (foldl handleEvent s evs)"
  by (induction evs arbitrary: s) (simp_all add: zoomOk_handleEvent)

lemma isoState_zoom:
  "zoomFactor (zoom isoState) = 1" "cam isoState \<noteq> None"
  by (simp_all add: isoState_def setViewAngle_def init3D_fields updateCameraPosition_def
      updateSphereVisibility_def furthest_empty Let_def)

subsection \<open>Fields that the scene composer leaves alone\<close>

lemma createScreens_loop_fields:
  "screens (createScreens_loop sds i s) = screens s"
  "cam (createScreens_loop sds i s) = cam s"
  "viewAngle (createScreens_loop sds i s) = viewAngle s"
  "orbit (createScreens_loop sds i s) = orbit s"
  "isInitialized (createScreens_loop sds i s) = isInitialized s"
  by (induction sds i s rule: createScreens_loop.induct)
     (simp_all add: createSingleScreen_def Let_def split_beta)

lemma createScreens_fields:
  "screens (createScreens s) = screens s"
  "cam (createScreens s) = cam s"
  "viewAngle (createScreens s) = viewAngle s"
  "orbit (createScreens s) = orbit s"
  "isInitialized (createScreens s) = isInitialized s"
  by (simp_all add: createScreens_def clearScreens_def createDefaultScreen_def Let_def
      createScreens_loop_fields createSingleScreen_def split_beta)

lemma updateViewAxisLine_fields:
  "screens (updateViewAxisLine s) = screens s"
  "cam (updateViewAxisLine s) = cam s"
  "viewAngle (updateViewAxisLine s) = viewAngle s"
  "orbit (updateViewAxisLine s) = orbit s"
  "isInitialized (updateViewAxisLine s) = isInitialized s"
  by (simp_all add: updateViewAxisLine_def)

lemma updateCameraPositionResponsive_fields:
  "screens (updateCameraPositionResponsive s) = screens s"
  "cam (updateCameraPositionResponsive s) = cam s"
  "viewAngle (updateCameraPositionResponsive s) = viewAngle s"
  "orbit (updateCameraPositionResponsive s) = orbit s"
  "isInitialized (updateCameraPositionResponsive s) = isInitialized s"
  by (simp_all add: updateCameraPositionResponsive_def)

lemma hasDistanceChanged_fields:
  "screens (snd (hasDistanceChanged e s)) = screens s"
  "cam (snd (hasDistanceChanged e s)) = cam s"
  "viewAngle (snd (hasDistanceChanged e s)) = viewAngle s"
  "orbit (snd (hasDistanceChanged e s)) = orbit s"
  "isInitialized (snd (hasDistanceChanged e s)) = isInitialized s"
  by (simp_all add: hasDistanceChanged_def Let_def)

lemma hasScreenDataChanged_fields:
  "screens (snd (hasScreenDataChanged e scs s)) = screens s"
  "cam (snd (hasScreenDataChanged e scs s)) = cam s"
  "viewAngle (snd (hasScreenDataChanged e scs s)) = viewAngle s"
  "orbit (snd (hasScreenDataChanged e scs s)) = orbit s"
  "isInitialized (snd (hasScreenDataChanged e scs s)) = isInitialized s"
  by (simp_all add: hasScreenDataChanged_def hasThemeChanged_def Let_def split_beta)

lemma updateScreens_fields:
  "screens (updateScreens e scs s) = scs"
  "cam (updateScreens e scs s) = cam s"
  "viewAngle (updateScreens e scs s) = viewAngle s"
  "orbit (updateScreens e scs s) = orbit s"
  "isInitialized (updateScreens e scs s) = isInitialized s"
  by (simp_all add: updateScreens_def Let_def split_beta createScreens_fields
      updateViewAxisLine_fields updateCameraPositionResponsive_fields
      hasDistanceChanged_fields hasScreenDataChanged_fields)

subsection \<open>Furthest distance and the isometric camera target\<close>

lemma foldl_max_Max:
  fixes a :: real
  shows "foldl (\<lambda>m x. max m (f x)) a xs = Max (insert a (f ` set xs))"
proof (induction xs arbitrary: a)
  case Nil
  then show ?case by simp
next
  case (Cons x xs)
  have "Max (insert (max a (f x)) (f ` set xs)) = Max (insert a (insert (f x) (f ` set xs)))"
    by (cases "f ` set xs = {}") (simp_all add: max.assoc)
  with Cons show ?case by simp
qed

lemma furthest_Max:
  assumes "screens s \<noteq> []" and "\<forall>sc \<in> set (screens s). 0 < distance sc"
  shows "calculateFurthestScreenDistance s = Max (distance ` set (screens s))"
proof -
  have eq: "(\<lambda>sc. js_or (distance sc) PRESET_DISTANCE) ` set (screens s) = distance ` set (screens s)"
  proof (rule image_cong)
    fix sc assume "sc \<in> set (screens s)"
    with assms(2) have "distance sc \<noteq> 0" by fastforce
    then show "js_or (distance sc) PRESET_DISTANCE = distance sc"
      by (simp add: js_or_def)
  qed simp
  have ne: "distance ` set (screens s) \<noteq> {}" and fin: "finite (distance ` set (screens s))"
    using assms(1) by simp_all
  have "0 \<le> Max (distance ` set (screens s))"
  proof -
    obtain sc where sc: "sc \<in> set (screens s)"
      using assms(1) by (cases "screens s") auto
    then have "distance sc \<le> Max (distance ` set (screens s))"
      by simp
    moreover from assms(2) sc have "0 < distance sc" by blast
    ultimately show ?thesis by linarith
  qed
  then have "Max (insert 0 (distance ` set (screens s))) = Max (distance ` set (screens s))"
    using ne fin by (simp add: max_def)
  then show ?thesis
    using assms(1) by (simp add: calculateFurthestScreenDistance_def foldl_max_Max eq)
qed

lemma isometric_offset_radius_pos:
  "0 < vlength (vsub (Vector3 (max 0.1 (f * 0.2) * 3) (max 0.1 (f * 0.2) * 2) (max 0.1 (f * 0.2)))
                     (Vector3 0 0 (- f / 2)))"
proof -
  let ?c = "max 0.1 (f * 0.2)"
  have c: "0 < ?c * 3" by simp
  then have "0 < (?c * 3) * (?c * 3)" by simp
  moreover have "0 \<le> (?c * 2) * (?c * 2)" and "0 \<le> (?c - - f / 2) * (?c - - f / 2)"
    by simp_all
  ultimately have "0 < (?c * 3) * (?c * 3) + (?c * 2) * (?c * 2) + (?c - - f / 2) * (?c - - f / 2)"
    by linarith
  then show ?thesis
    by (simp add: vlength_def vsub_def)
qed

lemma updateCameraPosition_3d:
  assumes "cam s \<noteq> None" and "viewAngle s = View3D"
  shows "targetCameraPosition (updateCameraPosition s) =
           (let c = max 0.1 (calculateFurthestScreenDistance s / 1000 * 0.2)
            in Vector3 (c * 3) (c * 2) c)"
    and "target (orbit (updateCameraPosition s)) =
           Vector3 0 0 (- (calculateFurthestScreenDistance s / 1000) / 2)"
    and "targetCameraLookAt (updateCameraPosition s) =
           Vector3 0 0 (- (calculateFurthestScreenDistance s / 1000) / 2)"
proof -
  from assms(1) obtain c where c: "cam s = Some c" by auto
  show "targetCameraPosition (updateCameraPosition s) =
           (let c = max 0.1 (calculateFurthestScreenDistance s / 1000 * 0.2)
            in Vector3 (c * 3) (c * 2) c)"
    by (simp add: updateCameraPosition_def updateSphereVisibility_def Let_def c assms(2))
  show "target (orbit (updateCameraPosition s)) =
           Vector3 0 0 (- (calculateFurthestScreenDistance s / 1000) / 2)"
    by (simp add: updateCameraPosition_def updateSphereVisibility_def Let_def c assms(2))
  show "targetCameraLookAt (updateCameraPosition s) =
           Vector3 0 0 (- (calculateFurthestScreenDistance s / 1000) / 2)"
    by (simp add: updateCameraPosition_def updateSphereVisibility_def Let_def c assms(2))
qed

lemma isoWith_fields:
  "screens (isoWith ds) = map screenAt ds"
  "cam (isoWith ds) \<noteq> None"
  "viewAngle (isoWith ds) = View3D"
  by (simp_all add: isoWith_def updateScreens_fields isoState_fields)

lemma distance_screenAt [simp]: "distance (screenAt d) = d"
  by (simp add: screenAt_def)

subsection \<open>Azimuth interpolation\<close>

lemma wrapDeltaTheta_cases:
  "wrapDeltaTheta d = (if d > pi then d - 2 * pi else if d < - pi then d + 2 * pi else d)"
proof -
  have "\<not> d - 2 * pi < - pi" if "d > pi"
    using that by simp
  then show ?thesis
    by (auto simp: wrapDeltaTheta_def Let_def)
qed

lemma wrapDeltaTheta_range:
  assumes "- (3 * pi) < d" and "d \<le> 3 * pi" and "d \<noteq> - pi"
  shows "- pi < wrapDeltaTheta d" and "wrapDeltaTheta d \<le> pi"
  using assms by (auto simp: wrapDeltaTheta_cases)

lemma wrapDeltaTheta_turn:
  "wrapDeltaTheta d = d \<or> wrapDeltaTheta d = d - 2 * pi \<or> wrapDeltaTheta d = d + 2 * pi"
  by (auto simp: wrapDeltaTheta_cases)

lemma wrapDeltaTheta_past_pi:
  assumes "0 < eps" and "eps < pi"
  shows "wrapDeltaTheta (pi + eps) = eps - pi"
  using assms by (simp add: wrapDeltaTheta_cases)

lemma sqrt_sq3: "sqrt (a * a + b * b + c * c) = 0 \<longleftrightarrow> a = 0 \<and> b = 0 \<and> c = (0::real)"
proof -
  have "a * a + b * b + c * c = 0 \<longleftrightarrow> a = 0 \<and> b = 0 \<and> c = 0"
    by (metis add_nonneg_eq_0_iff mult_eq_0_iff zero_le_square add_nonneg_nonneg)
  moreover have "0 \<le> a * a + b * b + c * c" by (simp add: add_nonneg_nonneg)
  ultimately show ?thesis by simp
qed

lemma animateCamera_3d_theta:
  assumes "cam s = Some c" and "isAnimating s" and "currentSpherical s = Some sp"
  shows "case animateCamera_3d s of
           Inl a \<Rightarrow> True
         | Inr s' \<Rightarrow>
             (case currentSpherical s' of
                None \<Rightarrow> \<not> isAnimating s'
              | Some sp' \<Rightarrow> theta sp' = interpolateTheta (theta sp) (theta (spherical (orbit s))))"
  using assms
  by (simp add: animateCamera_3d_def Let_def split: option.splits sum.splits)

lemma isoState_animating: "isAnimating isoState"
  by (simp add: isoState_def setViewAngle_def init3D_fields updateCameraPosition_def
      updateSphereVisibility_def furthest_empty Let_def)

subsection \<open>Spherical coordinates of an offset\<close>

lemma vlength_nonneg: "0 \<le> vlength v"
  by (simp add: vlength_def)

lemma vlength_pos_iff: "0 < vlength v \<longleftrightarrow> vlength v \<noteq> 0"
  using vlength_nonneg [of v] by linarith

lemma atan2_range: "- pi < atan2 b a \<and> atan2 b a \<le> pi"
proof -
  have lb: "- (pi / 2) < arctan (b / a)" and ub: "arctan (b / a) < pi / 2"
    by (rule arctan_lbound, rule arctan_ubound)
  have p: "0 < pi" by simp
  consider "a > 0" | "a < 0" "b \<ge> 0" | "a < 0" "b < 0" | "a = 0"
    by linarith
  then show ?thesis
  proof cases
    case 1
    then show ?thesis using lb ub p by (simp add: atan2_def; linarith)
  next
    case 2
    then have "b / a \<le> 0" by (simp add: divide_nonneg_neg)
    then have "arctan (b / a) \<le> 0" by (simp add: arctan_le_zero_iff)
    with 2 lb p show ?thesis by (simp add: atan2_def; linarith)
  next
    case 3
    then have "0 < b / a" by (simp add: divide_neg_neg)
    then have "0 < arctan (b / a)" by (simp add: zero_less_arctan_iff)
    with 3 ub p show ?thesis by (simp add: atan2_def; linarith)
  next
    case 4
    then show ?thesis using p by (simp add: atan2_def; linarith)
  qed
qed

lemma validSpherical_fromOffset:
  assumes "vlength offset \<noteq> 0"
  shows "validSpherical (sphericalFromOffset offset)"
proof -
  have r: "0 < vlength offset"
    using assms by (simp add: vlength_pos_iff)
  have "- 1 \<le> max (- 1) (min 1 (vy offset / vlength offset))"
    and "max (- 1) (min 1 (vy offset / vlength offset)) \<le> 1"
    by simp_all
  then have "0 \<le> arccos (max (- 1) (min 1 (vy offset / vlength offset)))"
    and "arccos (max (- 1) (min 1 (vy offset / vlength offset))) \<le> pi"
    by (rule arccos_lbound, rule arccos_ubound)
  then show ?thesis
    using r atan2_range [of "vx offset" "vz offset"]
    by (simp add: validSpherical_def sphericalFromOffset_def Let_def)
qed

lemma validSpherical_defaults:
  "validSpherical \<lparr>radius = 1, phi = pi / 2, theta = 0\<rparr>"
  "validSpherical \<lparr>radius = 1, phi = pi / 4, theta = pi / 4\<rparr>"
  by (simp_all add: validSpherical_def)

lemma startOrbitDrag_spherical:
  assumes "cam s = Some c" and "viewAngle s = View3D"
  shows "spherical (orbit (startOrbitDrag p s)) =
           (if vlength (vsub (position c) (target (orbit s))) = 0 then spherical (orbit s)
            else sphericalFromOffset (vsub (position c) (target (orbit s))))"
  using assms by (simp add: startOrbitDrag_def Let_def vlength_pos_iff)

lemma setViewAngle_seed:
  assumes "cam s = Some c" and "isInitialized s" and "viewAngle s \<noteq> View3D"
  shows "currentSpherical (setViewAngle View3D s) =
           Some (if vlength (vsub (position c) (target (orbit s))) = 0
                 then \<lparr>radius = 1, phi = pi / 2, theta = 0\<rparr>
                 else sphericalFromOffset (vsub (position c) (target (orbit s))))"
  using assms by (simp add: setViewAngle_def Let_def vlength_pos_iff)

lemma zeroOffsetState_fields:
  "cam (zeroOffsetState sp) =
      Some \<lparr>position = Vector3 0 0 0, up = Vector3 0 1 0, lookAtPoint = Vector3 0 0 (- 1)\<rparr>"
  "viewAngle (zeroOffsetState sp) = View3D"
  "enabled (orbit (zeroOffsetState sp))"
  "target (orbit (zeroOffsetState sp)) = Vector3 0 0 0"
  "spherical (orbit (zeroOffsetState sp)) = sp"
  "isAnimating (zeroOffsetState sp)"
  by (simp_all add: zeroOffsetState_def isoState_fields isoState_animating)

subsection \<open>Change detection\<close>

lemma sort_map_perm:
  fixes f :: "'a \<Rightarrow> 'b::linorder"
  assumes "mset ys = mset xs"
  shows "sort (map f ys) = sort (map f xs)"
proof -
  have "mset (sort (map f xs)) = mset (map f ys)"
    using assms by simp
  then show ?thesis
    by (rule properties_for_sort) simp
qed

lemma perm_Nil_iff: "mset ys = mset xs \<Longrightarrow> (ys = []) = (xs = [])"
  by (metis mset_zero_iff)

lemma generateScreensHash_perm:
  assumes "mset ys = mset xs"
  shows "generateScreensHash e ys = generateScreensHash e xs"
  using sort_map_perm [OF assms, of "screenSignature e"] perm_Nil_iff [OF assms]
  by (simp add: generateScreensHash_def)

lemma calculateDistanceHash_perm:
  assumes "mset (screens s') = mset (screens s)"
  shows "calculateDistanceHash e s' = calculateDistanceHash e s"
  using sort_map_perm [OF assms, of "\<lambda>screen. js_or (distance screen) PRESET_DISTANCE"]
    perm_Nil_iff [OF assms]
  by (simp add: calculateDistanceHash_def)

lemma createScreens_loop_caches:
  "lastScreensHash (createScreens_loop sds i s) = lastScreensHash s"
  "lastCanvasSize (createScreens_loop sds i s) = lastCanvasSize s"
  "lastTheme (createScreens_loop sds i s) = lastTheme s"
  "lastDistanceHash (createScreens_loop sds i s) = lastDistanceHash s"
  by (induction sds i s rule: createScreens_loop.induct)
     (simp_all add: createSingleScreen_def Let_def split_beta)

lemma createScreens_caches:
  "lastScreensHash (createScreens s) = lastScreensHash s"
  "lastCanvasSize (createScreens s) = lastCanvasSize s"
  "lastTheme (createScreens s) = lastTheme s"
  "lastDistanceHash (createScreens s) = lastDistanceHash s"
  by (simp_all add: createScreens_def clearScreens_def createDefaultScreen_def Let_def
      createScreens_loop_caches createSingleScreen_def split_beta)

lemma updateViewAxisLine_caches:
  "lastScreensHash (updateViewAxisLine s) = lastScreensHash s"
  "lastCanvasSize (updateViewAxisLine s) = lastCanvasSize s"
  "lastTheme (updateViewAxisLine s) = lastTheme s"
  "lastDistanceHash (updateViewAxisLine s) = lastDistanceHash s"
  by (simp_all add: updateViewAxisLine_def)

lemma updateCameraPositionResponsive_caches:
  "lastScreensHash (updateCameraPositionResponsive s) = lastScreensHash s"
  "lastCanvasSize (updateCameraPositionResponsive s) = lastCanvasSize s"
  "lastTheme (updateCameraPositionResponsive s) = lastTheme s"
  "lastDistanceHash (updateCameraPositionResponsive s) = lastDistanceHash s"
  by (simp_all add: updateCameraPositionResponsive_def)

lemma hasDistanceChanged_cache:
  "lastDistanceHash (snd (hasDistanceChanged e s)) = Some (calculateDistanceHash e s)"
  "lastScreensHash (snd (hasDistanceChanged e s)) = lastScreensHash s"
  "lastCanvasSize (snd (hasDistanceChanged e s)) = lastCanvasSize s"
  "lastTheme (snd (hasDistanceChanged e s)) = lastTheme s"
  by (simp_all add: hasDistanceChanged_def Let_def)

lemma hasScreenDataChanged_cache:
  "lastScreensHash (snd (hasScreenDataChanged e scs s)) = Some (generateScreensHash e scs)"
  "lastCanvasSize (snd (hasScreenDataChanged e scs s)) = canvasSize e"
  "lastTheme (snd (hasScreenDataChanged e scs s)) = effectiveTheme e"
  "lastDistanceHash (snd (hasScreenDataChanged e scs s)) = lastDistanceHash s"
  by (auto simp: hasScreenDataChanged_def hasThemeChanged_def Let_def split_beta prod_eq_iff)

lemma updateScreens_caches:
  "lastDistanceHash (updateScreens e xs s) = Some (calculateDistanceHash e (s\<lparr>screens := xs\<rparr>))"
  "isInitialized s \<Longrightarrow> lastScreensHash (updateScreens e xs s) = Some (generateScreensHash e xs)"
  "isInitialized s \<Longrightarrow> lastCanvasSize (updateScreens e xs s) = canvasSize e"
  "isInitialized s \<Longrightarrow> lastTheme (updateScreens e xs s) = effectiveTheme e"
  by (simp_all add: updateScreens_def Let_def split_beta createScreens_caches
      updateViewAxisLine_caches updateCameraPositionResponsive_caches
      hasDistanceChanged_cache hasScreenDataChanged_cache hasDistanceChanged_fields
      hasScreenDataChanged_fields createScreens_fields updateViewAxisLine_fields
      updateCameraPositionResponsive_fields)

lemma hasDistanceChanged_same:
  "lastDistanceHash s = Some (calculateDistanceHash e s) \<Longrightarrow> hasDistanceChanged e s = (False, s)"
  by (simp add: hasDistanceChanged_def Let_def)

lemma hasScreenDataChanged_same:
  assumes "lastScreensHash s = Some (generateScreensHash e scs)"
    and "lastCanvasSize s = canvasSize e" and "lastTheme s = effectiveTheme e"
  shows "hasScreenDataChanged e scs s = (False, s)"
  using assms by (simp add: hasScreenDataChanged_def hasThemeChanged_def Let_def)

lemma updateScreens_again:
  assumes "mset ys = mset xs"
  shows "updateScreens e ys (updateScreens e xs s) = (updateScreens e xs s)\<lparr>screens := ys\<rparr>"
proof -
  let ?s1 = "updateScreens e xs s"
  let ?s1' = "?s1\<lparr>screens := ys\<rparr>"
  have "calculateDistanceHash e ?s1' = calculateDistanceHash e (s\<lparr>screens := xs\<rparr>)"
    by (rule calculateDistanceHash_perm) (simp add: assms)
  then have d: "hasDistanceChanged e ?s1' = (False, ?s1')"
    by (intro hasDistanceChanged_same) (simp add: updateScreens_caches)
  have init: "isInitialized ?s1 = isInitialized s"
    by (simp add: updateScreens_fields)
  show ?thesis
  proof (cases "isInitialized s")
    case True
    have "hasScreenDataChanged e ys ?s1' = (False, ?s1')"
      by (rule hasScreenDataChanged_same)
         (simp_all add: updateScreens_caches True generateScreensHash_perm [OF assms])
    then show ?thesis
      using d True init by (simp add: updateScreens_def [of e ys] Let_def)
  next
    case False
    then show ?thesis
      using d init by (simp add: updateScreens_def [of e ys] Let_def)
  qed
qed

section \<open>The claims\<close>

text \<open>
  Claim C4. For a spec with positive diagonal and resolution, \<open>createSingleScreen\<close> takes
  \<open>ratio = widthPx / heightPx\<close>, \<open>heightInches = diagonal / sqrt (ratio\<^sup>2 + 1)\<close> and
  \<open>widthInches = ratio * heightInches\<close>, converts both to meters by multiplying by 25.4
  and dividing by 1000, and hands these sizes to the panel and the border builder; the
  ratio of width to height in meters is the ratio of the resolution.
\<close>

theorem C4_physical_size:
  assumes "0 < diagonal sd" and "0 < fst (resolution sd)" and "0 < snd (resolution sd)"
  shows "let ratio = fst (resolution sd) / snd (resolution sd);
             heightInches = diagonal sd / sqrt (ratio\<^sup>2 + 1);
             widthInches = ratio * heightInches;
             widthM = fst (screenSizeMeters sd);
             heightM = snd (screenSizeMeters sd);
             built = last (screenMeshes (createSingleScreen sd index s));
             place = Vector3 0 0 (- (js_or (distance sd) PRESET_DISTANCE) / 1000 + real index * 0.001)
         in heightM = heightInches * 25.4 / 1000
          \<and> widthM = widthInches * 25.4 / 1000
          \<and> 0 < heightM
          \<and> widthM / heightM = fst (resolution sd) / snd (resolution sd)
          \<and> centerPanel built =
               position_set place (createCenterPanel widthM heightM (curvature_or_null (curvature sd)))
          \<and> border built =
               position_set place (createScreenBorder widthM heightM (curvature_or_null (curvature sd)))"
proof -
  let ?ratio = "fst (resolution sd) / snd (resolution sd)"
  have sq: "0 < ?ratio\<^sup>2 + 1"
    by (rule add_nonneg_pos) simp_all
  then have pos: "0 < sqrt (?ratio\<^sup>2 + 1)"
    by simp
  have h: "0 < diagonal sd / sqrt (?ratio\<^sup>2 + 1)"
    using assms(1) pos by simp
  have ne: "diagonal sd \<noteq> 0" "?ratio\<^sup>2 + 1 \<noteq> 0"
    using assms(1) sq by simp_all
  show ?thesis
    unfolding Let_def createSingleScreen_last
    using h ne by (simp add: screenSizeMeters_eq)
qed

theorem C4_physical_size_witness:
  "0 < diagonal flat43 \<and> 0 < fst (resolution flat43) \<and> 0 < snd (resolution flat43) \<and>
   screenSizeMeters flat43 = (4 * 25.4 / 1000, 3 * 25.4 / 1000) \<and>
   fst (screenSizeMeters flat43) / snd (screenSizeMeters flat43) = 4 / 3"
proof -
  have a: "0 < diagonal flat43" "0 < fst (resolution flat43)" "0 < snd (resolution flat43)"
    by (simp_all add: flat43_def)
  have s: "sqrt ((4 / 3)\<^sup>2 + 1) = 5 / 3"
    by (rule real_sqrt_unique) (simp_all add: power2_eq_square)
  from C4_physical_size [OF a, of 0 "constructor exampleEnv"]
  show ?thesis
    using a s by (simp add: Let_def flat43_def prod_eq_iff)
qed

text \<open>
  Claim C1 says that the border frame is 5% of the panel's height thick, flat or curved.
  \<open>createScreenBorder\<close> multiplies the height by 0.01: for the 4:3 screen with a 5 inch
  diagonal, whose panel is 0.0762 m high, the frame of the flat and of the curved
  variant is 0.000762 m thick, which is 1% of the height and not 5%.
\<close>

theorem C1_border_thickness_at_input:
  "frameThickness (border (last (screenMeshes (createSingleScreen flat43 0 (constructor exampleEnv)))))
     = 0.01 * (3 * 25.4 / 1000)
   \<and> frameThickness (border (last (screenMeshes
         (createSingleScreen (flat43\<lparr>curvature := Some 1500\<rparr>) 0 (constructor exampleEnv)))))
     = 0.01 * (3 * 25.4 / 1000)
   \<and> snd (screenSizeMeters flat43) = 3 * 25.4 / 1000
   \<and> (0.01::real) * (3 * 25.4 / 1000) \<noteq> 0.05 * (3 * 25.4 / 1000)"
  by (simp add: createSingleScreen_last screenSizeMeters_eq flat43_def sqrt_4_3
      curvature_or_null_def createScreenBorder_def Let_def frameThickness_def geometryThickness_def)

text \<open>
  Claim C2 says that a spec whose diagonal, resolution or distance is not positive makes
  \<open>createSingleScreen\<close> fail with an error and emit no geometry. It does not: the spec
  with diagonal 0 and distance 0 is built, as a panel of size 0 by 0 with its border,
  placed at the default distance of 0.6 m.
\<close>

theorem C2_zero_spec_is_built:
  "screenMeshes (createSingleScreen zeroSpec 0 (constructor exampleEnv)) =
     [\<lparr>border = position_set (Vector3 0 0 (- (3/5))) (createScreenBorder 0 0 None),
       centerPanel = Mesh (PlaneGeometry 0 0) (Vector3 0 0 (- (3/5))) 0,
       meshScreenData = zeroSpec, colorIndex = 0\<rparr>]"
  by (simp add: createSingleScreen_def Let_def split_beta screenSizeMeters_eq zeroSpec_def constructor_def
      curvature_or_null_def createCenterPanel_def createScreenBorder_def js_or_def PRESET_DISTANCE_def
      screenNumber_or_def SCREEN_COLORS_length_def)

text \<open>
  Claim C2, amended. \<open>createSingleScreen\<close> checks nothing and raises nothing: for every
  spec and index it adds exactly one group of border and panel for that spec to
  \<open>screenMeshes\<close>, both placed on the z axis at minus the distance in meters plus 0.001
  per index, where a distance of 0 is replaced by the default of 600 mm.
\<close>

theorem C2_builder_does_not_validate:
  "length (screenMeshes (createSingleScreen sd index s)) = length (screenMeshes s) + 1
   \<and> meshScreenData (last (screenMeshes (createSingleScreen sd index s))) = sd
   \<and> position_of (border (last (screenMeshes (createSingleScreen sd index s)))) =
       Vector3 0 0 (- (if distance sd = 0 then 600 else distance sd) / 1000 + real index * 0.001)
   \<and> position_of (centerPanel (last (screenMeshes (createSingleScreen sd index s)))) =
       Vector3 0 0 (- (if distance sd = 0 then 600 else distance sd) / 1000 + real index * 0.001)"
  unfolding createSingleScreen_last
  by (simp add: createSingleScreen_length position_of_position_set js_or_def PRESET_DISTANCE_def)

text \<open>
  Claim C5. For a curved spec (curvature radius \<open>c > 0\<close> in millimeters, kept as it is by
  \<open>createSingleScreen\<close>), every arc piece of the panel and of the border has the arc
  angle \<open>widthM / curvatureRadiusM\<close>, so the arc angle times the radius gives back the
  width; the segment count of all of them is \<open>max(32, floor(arcAngle * 32))\<close>, which is
  at least 32, exceeds \<open>32 * arcAngle - 1\<close>, and does not decrease when the width (and so
  the arc angle) grows.
\<close>

theorem C5_arc_angle_and_segments:
  assumes "0 < c"
  shows "let arcAngle = w / (c / 1000);
             segments = max 32 \<lfloor>arcAngle * 32\<rfloor>
         in curvature_or_null (Some c) = Some c
          \<and> arcAngle * (c / 1000) = w
          \<and> map arcOf (geometries (createCenterPanel w h (Some c))) = [Some (arcAngle, segments)]
          \<and> (\<forall>g \<in> set (geometries (createScreenBorder w h (Some c))).
                arcOf g = None \<or> arcOf g = Some (arcAngle, segments))
          \<and> Some (arcAngle, segments) \<in> arcOf ` set (geometries (createScreenBorder w h (Some c)))
          \<and> 32 \<le> segments
          \<and> arcAngle * 32 - 1 < real_of_int segments
          \<and> (\<forall>w'. w \<le> w' \<longrightarrow> segments \<le> max 32 \<lfloor>w' / (c / 1000) * 32\<rfloor>)"
proof -
  have mono: "max 32 \<lfloor>w / (c / 1000) * 32\<rfloor> \<le> max 32 \<lfloor>w' / (c / 1000) * 32\<rfloor>" if "w \<le> w'" for w'
  proof -
    have "w / (c / 1000) * 32 \<le> w' / (c / 1000) * 32"
      using that assms by (simp add: divide_right_mono)
    then have "\<lfloor>w / (c / 1000) * 32\<rfloor> \<le> \<lfloor>w' / (c / 1000) * 32\<rfloor>"
      by (rule floor_mono)
    then show ?thesis by simp
  qed
  have lower: "w / (c / 1000) * 32 - 1 < real_of_int (max 32 \<lfloor>w / (c / 1000) * 32\<rfloor>)"
    by linarith
  have inset: "\<forall>g \<in> set (geometries (createScreenBorder w h (Some c))).
                arcOf g = None \<or> arcOf g = Some (w / (c / 1000), max 32 \<lfloor>w / (c / 1000) * 32\<rfloor>)"
  proof
    fix g assume "g \<in> set (geometries (createScreenBorder w h (Some c)))"
    then have "arcOf g \<in> set (map arcOf (geometries (createScreenBorder w h (Some c))))"
      by simp
    then show "arcOf g = None \<or> arcOf g = Some (w / (c / 1000), max 32 \<lfloor>w / (c / 1000) * 32\<rfloor>)"
      unfolding border_arcs by (auto simp: Let_def)
  qed
  have ex: "Some (w / (c / 1000), max 32 \<lfloor>w / (c / 1000) * 32\<rfloor>)
             \<in> arcOf ` set (geometries (createScreenBorder w h (Some c)))"
  proof -
    have "Some (w / (c / 1000), max 32 \<lfloor>w / (c / 1000) * 32\<rfloor>)
            \<in> set (map arcOf (geometries (createScreenBorder w h (Some c))))"
      unfolding border_arcs by (simp add: Let_def)
    then show ?thesis by simp
  qed
  show ?thesis
    unfolding Let_def
    using arc_roundtrip [OF assms] mono lower inset ex assms
    by (simp add: panel_geometries arcOf_def curvature_or_null_def)
qed

theorem C5_arc_angle_and_segments_witness:
  "(0::real) < 1500
   \<and> map arcOf (geometries (createCenterPanel 3 1 (Some 1500))) = [Some (2, 64)]
   \<and> Some (2, 64) \<in> arcOf ` set (geometries (createScreenBorder 3 1 (Some 1500)))
   \<and> (2::real) * (1500 / 1000) = 3"
  using C5_arc_angle_and_segments [of 1500 3 1]
  by (simp add: Let_def)

text \<open>
  Claim C7. After any sequence of drag-move events the orbit's polar angle \<open>phi\<close> lies in
  [0.1, pi - 0.1]: a move that turns the orbit (mouse, or a single touch while no pinch
  is going on, during an orbit drag) clamps \<open>phi\<close> into that interval whatever its size
  and whatever \<open>phi\<close> was before, and no mouse move, touch move or wheel event that
  follows, in any order, takes \<open>phi\<close> out of it.
\<close>

theorem C7_polar_angle_clamped:
  "(phiOk s \<longrightarrow> phiOk (foldl handleEvent s evs)) \<and>
   (orbitMoveApplies s ev \<longrightarrow>
      phiOk (handleEvent s ev) \<and> phiOk (foldl handleEvent s (ev # evs)))"
proof (intro conjI impI)
  assume "phiOk s"
  then show "phiOk (foldl handleEvent s evs)"
    by (rule phiOk_events)
next
  assume "orbitMoveApplies s ev"
  then show first: "phiOk (handleEvent s ev)"
    by (rule orbit_move_establishes)
  have "foldl handleEvent s (ev # evs) = foldl handleEvent (handleEvent s ev) evs"
    by simp
  with phiOk_events [OF first, of evs] show "phiOk (foldl handleEvent s (ev # evs))"
    by simp
qed

theorem C7_polar_angle_clamped_witness:
  "phiOk orbitingState
   \<and> orbitMoveApplies orbitingState (MouseMove (100, 100000))
   \<and> phiOk (foldl handleEvent orbitingState
        [MouseMove (100, 100000), TouchMove [(5, - 7000)], Wheel 3, MouseMove (0, 0)])"
proof -
  have a: "phiOk orbitingState"
    using pi_ge_two by (simp add: phiOk_def orbitingState_fields)
  have b: "orbitMoveApplies orbitingState (MouseMove (100, 100000))"
    by (simp add: orbitDragActive_def orbitingState_fields)
  from C7_polar_angle_clamped [of orbitingState "[TouchMove [(5, - 7000)], Wheel 3, MouseMove (0, 0)]"
      "MouseMove (100, 100000)"] a b
  show ?thesis by simp
qed

text \<open>
  Claim C8. After any sequence of zoom deltas applied through \<open>applyZoom\<close> (with any
  sensitivity, as the wheel and the pinch handler do) the zoom factor lies in
  [0.2, 5.0], and the spherical radius is \<open>baseDistance / zoomFactor\<close> raised to at
  least 0.01, so strictly positive. The bound on the zoom factor is also kept by every
  sequence of mouse move, touch move and wheel events; where zooming applies (camera
  present, isometric view, orbit enabled) one call establishes it.
\<close>

theorem C8_zoom_factor_clamped:
  "(zoomOk s \<longrightarrow> zoomOk (applyZooms s ds) \<and> zoomOk (foldl handleEvent s evs)) \<and>
   (zoomActive s \<longrightarrow>
      (let s' = applyZooms s (ds @ [(delta, sensitivity)])
       in 0.2 \<le> zoomFactor (zoom s') \<and> zoomFactor (zoom s') \<le> 5.0
        \<and> radius (spherical (orbit s')) = max 0.01 (baseDistance (zoom s') / zoomFactor (zoom s'))
        \<and> 0 < radius (spherical (orbit s'))))"
proof (intro conjI impI)
  assume "zoomOk s"
  then show "zoomOk (applyZooms s ds)" by (rule zoomOk_applyZooms)
  from \<open>zoomOk s\<close> show "zoomOk (foldl handleEvent s evs)" by (rule zoomOk_events)
next
  assume "zoomActive s"
  then have act: "zoomActive (applyZooms s ds)"
    by (rule zoomActive_applyZooms)
  show "let s' = applyZooms s (ds @ [(delta, sensitivity)])
       in 0.2 \<le> zoomFactor (zoom s') \<and> zoomFactor (zoom s') \<le> 5.0
        \<and> radius (spherical (orbit s')) = max 0.01 (baseDistance (zoom s') / zoomFactor (zoom s'))
        \<and> 0 < radius (spherical (orbit s'))"
    unfolding Let_def applyZooms_snoc
    using applyZoom_establishes [OF act, of delta sensitivity]
    by (simp add: zoomOk_def)
qed

theorem C8_zoom_factor_clamped_witness:
  "zoomOk isoState \<and> zoomActive isoState
   \<and> zoomOk (applyZooms isoState [(1.1, 1), (1000, 1), (0, 1 / 2)])
   \<and> zoomOk (foldl handleEvent isoState [Wheel 3, Wheel (- 3), TouchMove [(0, 0), (3, 4)]])
   \<and> 0 < radius (spherical (orbit (applyZooms isoState [(1.1, 1), (1000, 1), (0, 1 / 2)])))"
proof -
  have a: "zoomOk isoState"
    by (simp add: zoomOk_def isoState_zoom)
  have b: "zoomActive isoState"
    by (simp add: zoomActive_def isoState_fields isoState_zoom)
  from C8_zoom_factor_clamped [of isoState "[(1.1, 1), (1000, 1)]"
      "[Wheel 3, Wheel (- 3), TouchMove [(0, 0), (3, 4)]]" 0 "1 / 2"] a b
  show ?thesis by (simp add: Let_def zoomOk_def)
qed

text \<open>
  Claim C6 says that in the isometric view the camera's height and side offsets are
  proportional to the furthest screen distance. They are not for near screens: with one
  screen at 300 mm and with one screen at 400 mm the target camera position is the same
  (0.3, 0.2, 0.1), and the height 0.2 is not 0.4 times 0.3.
\<close>

theorem C6_offsets_not_proportional:
  "calculateFurthestScreenDistance (isoWith [300]) = 300
   \<and> calculateFurthestScreenDistance (isoWith [400]) = 400
   \<and> targetCameraPosition (updateCameraPosition (isoWith [300])) = Vector3 0.3 0.2 0.1
   \<and> targetCameraPosition (updateCameraPosition (isoWith [400])) = Vector3 0.3 0.2 0.1
   \<and> vy (targetCameraPosition (updateCameraPosition (isoWith [300]))) \<noteq> 0.4 * (300 / 1000)"
  by (simp add: updateCameraPosition_3d isoWith_fields calculateFurthestScreenDistance_def js_or_def Let_def)

text \<open>
  Claim C6, amended. In the isometric view \<open>updateCameraPosition\<close> sets the orbit target
  (and the look-at point) to (0, 0, -furthestDistanceM / 2), the midpoint between the
  viewer at the origin and the furthest screen, where the furthest distance is the
  maximum distance over the current screens (all positive) and 600 mm when there are
  none. The target camera position is (3c, 2c, c) with c = max(0.1, 0.2 furthestDistanceM):
  side, height and depth offsets are 0.6, 0.4 and 0.2 times the furthest distance when
  that is at least 0.5 m, and 0.3, 0.2 and 0.1 m below. With screens at 600 and 900 mm
  the offsets are 0.54, 0.36 and 0.18, taken from 0.9 m.
\<close>

theorem C6_isometric_target_and_offsets:
  assumes "cam s \<noteq> None" and "viewAngle s = View3D"
  shows "let furthestDistanceM = calculateFurthestScreenDistance s / 1000;
             cameraDistance = max 0.1 (furthestDistanceM * 0.2);
             s' = updateCameraPosition s
         in target (orbit s') = Vector3 0 0 (- furthestDistanceM / 2)
          \<and> targetCameraLookAt s' = Vector3 0 0 (- furthestDistanceM / 2)
          \<and> targetCameraPosition s' = Vector3 (3 * cameraDistance) (2 * cameraDistance) cameraDistance
          \<and> (0.5 \<le> furthestDistanceM \<longrightarrow>
                targetCameraPosition s' =
                  Vector3 (0.6 * furthestDistanceM) (0.4 * furthestDistanceM) (0.2 * furthestDistanceM))
          \<and> (furthestDistanceM \<le> 0.5 \<longrightarrow> targetCameraPosition s' = Vector3 0.3 0.2 0.1)
          \<and> (screens s = [] \<longrightarrow> calculateFurthestScreenDistance s = 600)
          \<and> (screens s \<noteq> [] \<and> (\<forall>sc \<in> set (screens s). 0 < distance sc) \<longrightarrow>
                calculateFurthestScreenDistance s = Max (distance ` set (screens s)))"
  unfolding Let_def updateCameraPosition_3d [OF assms]
  using furthest_Max [of s] furthest_empty [of s]
  by (auto simp: max_def)

theorem C6_isometric_target_and_offsets_witness:
  "cam (isoWith [600, 900]) \<noteq> None \<and> viewAngle (isoWith [600, 900]) = View3D
   \<and> calculateFurthestScreenDistance (isoWith [600, 900]) = 900
   \<and> target (orbit (updateCameraPosition (isoWith [600, 900]))) = Vector3 0 0 (- 0.45)
   \<and> targetCameraPosition (updateCameraPosition (isoWith [600, 900])) = Vector3 0.54 0.36 0.18"
proof -
  have f: "calculateFurthestScreenDistance (isoWith [600, 900]) = 900"
    by (simp add: calculateFurthestScreenDistance_def isoWith_fields js_or_def)
  from C6_isometric_target_and_offsets [OF isoWith_fields(2,3), of "[600, 900]"]
  show ?thesis
    by (simp add: Let_def f isoWith_fields)
qed

text \<open>
  Claim C9 says that the azimuth step wraps the difference target minus current into
  (-pi, pi]. A difference of exactly \<open>-pi\<close> (target 0, current \<open>pi\<close>) is left at \<open>-pi\<close>,
  which is outside that interval.
\<close>

theorem C9_wrap_leaves_minus_pi:
  "wrapDeltaTheta (0 - pi) = - pi
   \<and> \<not> (- pi < wrapDeltaTheta (0 - pi) \<and> wrapDeltaTheta (0 - pi) \<le> pi)
   \<and> interpolateTheta pi 0 = pi - pi * 0.1"
  by (simp add: wrapDeltaTheta_cases interpolateTheta_def animationSpeed_def)

text \<open>
  Claim C9, amended. The azimuth step of the isometric animation changes the difference
  target minus current by a whole turn or not at all; every difference in (-3 pi, 3 pi]
  other than \<open>-pi\<close> is wrapped into (-pi, pi], and \<open>-pi\<close> stays \<open>-pi\<close>. For a difference
  of exactly \<open>pi + eps\<close> with \<open>0 < eps < pi\<close> the wrapped difference is \<open>eps - pi\<close>, shorter
  than \<open>pi + eps\<close>, and the blended angle is the current one minus a tenth of
  \<open>pi - eps\<close>: the step goes down, along the shorter arc. A tick of the animation that
  has not converged stores exactly this blended angle in the interpolated spherical
  state.
\<close>

theorem C9_azimuth_shortest_path:
  "(- (3 * pi) < d \<and> d \<le> 3 * pi \<and> d \<noteq> - pi \<longrightarrow>
      - pi < wrapDeltaTheta d \<and> wrapDeltaTheta d \<le> pi)
   \<and> (wrapDeltaTheta d = d \<or> wrapDeltaTheta d = d - 2 * pi \<or> wrapDeltaTheta d = d + 2 * pi)
   \<and> (0 < eps \<and> eps < pi \<longrightarrow>
        wrapDeltaTheta (pi + eps) = eps - pi
      \<and> \<bar>wrapDeltaTheta (pi + eps)\<bar> < \<bar>pi + eps\<bar>
      \<and> interpolateTheta current (current + (pi + eps)) = current - (pi - eps) * 0.1
      \<and> interpolateTheta current (current + (pi + eps)) < current)
   \<and> (cam s = Some c \<and> isAnimating s \<and> currentSpherical s = Some sp \<longrightarrow>
        (case animateCamera_3d s of
           Inl a \<Rightarrow> True
         | Inr s' \<Rightarrow>
             (case currentSpherical s' of
                None \<Rightarrow> \<not> isAnimating s'
              | Some sp' \<Rightarrow> theta sp' = interpolateTheta (theta sp) (theta (spherical (orbit s))))))"
proof (intro conjI impI)
  assume "- (3 * pi) < d \<and> d \<le> 3 * pi \<and> d \<noteq> - pi"
  then show "- pi < wrapDeltaTheta d" and "wrapDeltaTheta d \<le> pi"
    using wrapDeltaTheta_range [of d] by simp_all
next
  show "wrapDeltaTheta d = d \<or> wrapDeltaTheta d = d - 2 * pi \<or> wrapDeltaTheta d = d + 2 * pi"
    by (rule wrapDeltaTheta_turn)
next
  assume e: "0 < eps \<and> eps < pi"
  then have w: "wrapDeltaTheta (pi + eps) = eps - pi"
    by (simp add: wrapDeltaTheta_past_pi)
  show "wrapDeltaTheta (pi + eps) = eps - pi" by (rule w)
  show "\<bar>wrapDeltaTheta (pi + eps)\<bar> < \<bar>pi + eps\<bar>"
    using e by (simp add: w)
  show "interpolateTheta current (current + (pi + eps)) = current - (pi - eps) * 0.1"
    by (simp add: interpolateTheta_def animationSpeed_def w diff_divide_distrib)
  show "interpolateTheta current (current + (pi + eps)) < current"
    using e by (simp add: interpolateTheta_def animationSpeed_def w)
next
  assume "cam s = Some c \<and> isAnimating s \<and> currentSpherical s = Some sp"
  then show "case animateCamera_3d s of
           Inl a \<Rightarrow> True
         | Inr s' \<Rightarrow>
             (case currentSpherical s' of
                None \<Rightarrow> \<not> isAnimating s'
              | Some sp' \<Rightarrow> theta sp' = interpolateTheta (theta sp) (theta (spherical (orbit s))))"
    using animateCamera_3d_theta [of s c sp] by simp
qed

theorem C9_azimuth_shortest_path_witness:
  "- (3 * pi) < pi + 1 \<and> pi + 1 \<le> 3 * pi \<and> pi + 1 \<noteq> - pi
   \<and> (0::real) < 1 \<and> 1 < pi
   \<and> cam isoState = Some \<lparr>position = Vector3 0 0 0, up = Vector3 0 1 0, lookAtPoint = Vector3 0 0 (- 1)\<rparr>
   \<and> isAnimating isoState
   \<and> currentSpherical isoState = Some \<lparr>radius = 1, phi = pi / 2, theta = 0\<rparr>
   \<and> wrapDeltaTheta (pi + 1) = 1 - pi
   \<and> interpolateTheta 0 (0 + (pi + 1)) < 0"
proof -
  have a: "(1::real) < pi" using pi_ge_two by linarith
  from C9_azimuth_shortest_path [of "pi + 1" 1 0 isoState
      "\<lparr>position = Vector3 0 0 0, up = Vector3 0 1 0, lookAtPoint = Vector3 0 0 (- 1)\<rparr>"
      "\<lparr>radius = 1, phi = pi / 2, theta = 0\<rparr>"] a
  show ?thesis
    by (simp add: isoState_fields isoState_animating)
qed

text \<open>
  Claim C3 says that at orbit drag start, at mode-switch seeding and at the convergence
  snap a zero-length offset is guarded and replaced by a fixed default orientation, so
  that no NaN enters the spherical state. At the convergence snap there is no guard:
  a zero offset gives a NaN polar angle, as in the resting state whose animation tick
  ends in that anomaly. At drag start a zero offset is guarded, but no default is used:
  the orbit keeps whatever spherical state it had, here two different ones.
\<close>

theorem C3_zero_offset_not_defaulted:
  "convergenceSpherical (vsub (Vector3 0 0 0) (Vector3 0 0 0)) = None
   \<and> animateCamera_3d restingZeroState = Inl NaN_spherical
   \<and> spherical (orbit (onMouseDown (0, 0) (zeroOffsetState \<lparr>radius = 2, phi = 1, theta = 0\<rparr>)))
        = \<lparr>radius = 2, phi = 1, theta = 0\<rparr>
   \<and> spherical (orbit (onMouseDown (0, 0) (zeroOffsetState \<lparr>radius = 3, phi = 2, theta = 1\<rparr>)))
        = \<lparr>radius = 3, phi = 2, theta = 1\<rparr>"
proof -
  have a: "convergenceSpherical (vsub (Vector3 0 0 0) (Vector3 0 0 0)) = None"
    by (simp add: convergenceSpherical_def vsub_def vlength_def)
  have b: "animateCamera_3d restingZeroState = Inl NaN_spherical"
    by (simp add: animateCamera_3d_def restingZeroState_def zeroOffsetState_fields Let_def
        vlerp_def lerp_def interpolateTheta_def wrapDeltaTheta_cases setFromSpherical_def
        vadd_def distanceTo_def vsub_def vlength_def convergenceSpherical_def)
  have c: "spherical (orbit (onMouseDown (0, 0) (zeroOffsetState sp))) = sp" for sp
    by (simp add: onMouseDown_def zeroOffsetState_fields startOrbitDrag_spherical vsub_def vlength_def)
  show ?thesis
    by (simp add: a b c)
qed

text \<open>
  Claim C3, amended. At orbit drag start (mouse or single touch, isometric view, orbit
  enabled) and at mode-switch seeding (entering the isometric view once initialised),
  the offset from the orbit target to the camera is tested before the division and the
  arc cosine. With a zero offset, drag start leaves the orbit's spherical state as it
  was, and seeding uses the fixed orientation (1, pi/2, 0); otherwise both take the
  spherical coordinates of the offset, which are well formed (positive radius, polar
  angle in [0, pi], azimuth in (-pi, pi]). So seeding always yields a well-formed state,
  and drag start keeps a well-formed state well formed.
\<close>

theorem C3_zero_offset_guards:
  "(cam s = Some c \<and> viewAngle s = View3D \<and> enabled (orbit s) \<longrightarrow>
      (let offset = vsub (position c) (target (orbit s));
           after = spherical (orbit (onMouseDown p s))
       in spherical (orbit (onTouchStart [p] s)) = after
        \<and> after = (if vlength offset = 0 then spherical (orbit s) else sphericalFromOffset offset)
        \<and> (vlength offset \<noteq> 0 \<or> validSpherical (spherical (orbit s)) \<longrightarrow> validSpherical after)))
   \<and> (cam s = Some c \<and> isInitialized s \<and> viewAngle s \<noteq> View3D \<longrightarrow>
      (let offset = vsub (position c) (target (orbit s));
           seeded = currentSpherical (setViewAngle View3D s)
       in seeded = Some (if vlength offset = 0 then \<lparr>radius = 1, phi = pi / 2, theta = 0\<rparr>
                         else sphericalFromOffset offset)
        \<and> (case seeded of None \<Rightarrow> False | Some sp \<Rightarrow> validSpherical sp)))"
proof (intro conjI impI)
  assume h: "cam s = Some c \<and> viewAngle s = View3D \<and> enabled (orbit s)"
  then have down: "onMouseDown p s = startOrbitDrag p s"
    and touch: "onTouchStart [p] s = startOrbitDrag p s"
    by (simp_all add: onMouseDown_def onTouchStart_def)
  from h have sp: "spherical (orbit (startOrbitDrag p s)) =
           (if vlength (vsub (position c) (target (orbit s))) = 0 then spherical (orbit s)
            else sphericalFromOffset (vsub (position c) (target (orbit s))))"
    by (simp add: startOrbitDrag_spherical)
  show "let offset = vsub (position c) (target (orbit s));
           after = spherical (orbit (onMouseDown p s))
       in spherical (orbit (onTouchStart [p] s)) = after
        \<and> after = (if vlength offset = 0 then spherical (orbit s) else sphericalFromOffset offset)
        \<and> (vlength offset \<noteq> 0 \<or> validSpherical (spherical (orbit s)) \<longrightarrow> validSpherical after)"
    unfolding Let_def down touch sp
    using validSpherical_fromOffset [of "vsub (position c) (target (orbit s))"]
    by auto
next
  assume h: "cam s = Some c \<and> isInitialized s \<and> viewAngle s \<noteq> View3D"
  then have seed: "currentSpherical (setViewAngle View3D s) =
           Some (if vlength (vsub (position c) (target (orbit s))) = 0
                 then \<lparr>radius = 1, phi = pi / 2, theta = 0\<rparr>
                 else sphericalFromOffset (vsub (position c) (target (orbit s))))"
    by (simp add: setViewAngle_seed)
  show "let offset = vsub (position c) (target (orbit s));
           seeded = currentSpherical (setViewAngle View3D s)
       in seeded = Some (if vlength offset = 0 then \<lparr>radius = 1, phi = pi / 2, theta = 0\<rparr>
                         else sphericalFromOffset offset)
        \<and> (case seeded of None \<Rightarrow> False | Some sp \<Rightarrow> validSpherical sp)"
    unfolding Let_def seed
    using validSpherical_fromOffset [of "vsub (position c) (target (orbit s))"]
      validSpherical_defaults(1)
    by auto
qed

theorem C3_zero_offset_guards_witness:
  "cam (zeroOffsetState \<lparr>radius = 2, phi = 1, theta = 0\<rparr>) = Some freshCamera
   \<and> viewAngle (zeroOffsetState \<lparr>radius = 2, phi = 1, theta = 0\<rparr>) = View3D
   \<and> enabled (orbit (zeroOffsetState \<lparr>radius = 2, phi = 1, theta = 0\<rparr>))
   \<and> spherical (orbit (onTouchStart [(0, 0)] (zeroOffsetState \<lparr>radius = 2, phi = 1, theta = 0\<rparr>)))
        = \<lparr>radius = 2, phi = 1, theta = 0\<rparr>
   \<and> cam (init3D (constructor exampleEnv)) = Some freshCamera
   \<and> isInitialized (init3D (constructor exampleEnv))
   \<and> viewAngle (init3D (constructor exampleEnv)) \<noteq> View3D
   \<and> currentSpherical (setViewAngle View3D (init3D (constructor exampleEnv)))
        = Some \<lparr>radius = 1, phi = pi / 2, theta = 0\<rparr>"
proof -
  have z: "vlength (vsub (Vector3 0 0 0) (Vector3 0 0 0)) = 0"
    by (simp add: vsub_def vlength_def)
  from C3_zero_offset_guards [of "zeroOffsetState \<lparr>radius = 2, phi = 1, theta = 0\<rparr>" freshCamera "(0, 0)"]
  have drag: "spherical (orbit (onTouchStart [(0, 0)] (zeroOffsetState \<lparr>radius = 2, phi = 1, theta = 0\<rparr>)))
        = \<lparr>radius = 2, phi = 1, theta = 0\<rparr>"
    by (simp add: zeroOffsetState_fields freshCamera_def Let_def z)
  from C3_zero_offset_guards [of "init3D (constructor exampleEnv)" freshCamera "(0, 0)"]
  have seed: "currentSpherical (setViewAngle View3D (init3D (constructor exampleEnv)))
        = Some \<lparr>radius = 1, phi = pi / 2, theta = 0\<rparr>"
    by (simp add: init3D_fields freshCamera_def Let_def z)
  show ?thesis
    using drag seed by (simp add: zeroOffsetState_fields init3D_fields freshCamera_def)
qed

text \<open>
  Claim C10. \<open>generateScreensHash\<close> gives the same string for every reordering of the
  screens array, since the signatures are sorted before they are joined. So when
  \<open>updateScreens\<close> is called again with a reordering of the list it was last called
  with, canvas size and theme being the same, \<open>hasScreenDataChanged\<close> answers no and
  the geometry is not rebuilt: nothing changes but the stored screens array.
\<close>

theorem C10_hash_permutation_invariant:
  assumes "mset ys = mset xs"
  shows "generateScreensHash e ys = generateScreensHash e xs
       \<and> (let s1 = updateScreens e xs s;
               s2 = updateScreens e ys s1
           in (isInitialized s \<longrightarrow> fst (hasScreenDataChanged e ys (s1\<lparr>screens := ys\<rparr>)) = False)
            \<and> s2 = s1\<lparr>screens := ys\<rparr>
            \<and> screenMeshes s2 = screenMeshes s1
            \<and> lastScreensHash s2 = lastScreensHash s1)"
proof -
  have "fst (hasScreenDataChanged e ys ((updateScreens e xs s)\<lparr>screens := ys\<rparr>)) = False"
    if "isInitialized s"
  proof -
    have "hasScreenDataChanged e ys ((updateScreens e xs s)\<lparr>screens := ys\<rparr>) =
            (False, (updateScreens e xs s)\<lparr>screens := ys\<rparr>)"
      by (rule hasScreenDataChanged_same)
         (simp_all add: updateScreens_caches that generateScreensHash_perm [OF assms])
    then show ?thesis by simp
  qed
  then show ?thesis
    by (simp add: Let_def generateScreensHash_perm [OF assms] updateScreens_again [OF assms])
qed

theorem C10_hash_permutation_invariant_witness:
  "mset [screenAt 900, screenAt 600] = mset [screenAt 600, screenAt 900]
   \<and> isInitialized isoState
   \<and> generateScreensHash exampleEnv [screenAt 900, screenAt 600]
       = generateScreensHash exampleEnv [screenAt 600, screenAt 900]
   \<and> screenMeshes (updateScreens exampleEnv [screenAt 900, screenAt 600] (isoWith [600, 900]))
       = screenMeshes (isoWith [600, 900])"
proof -
  have m: "mset [screenAt 900, screenAt 600] = mset [screenAt 600, screenAt 900]"
    by simp
  have i: "isInitialized isoState"
    by (simp add: isoState_def setViewAngle_def init3D_fields updateCameraPosition_def
        updateSphereVisibility_def Let_def)
  from C10_hash_permutation_invariant [OF m, of exampleEnv isoState]
  show ?thesis
    using m i by (simp add: Let_def isoWith_def)
qed

end
